theory Spec2Isabelle
  imports Main
begin

section \<open>JavaScript values\<close>

text \<open>
  The dashboard is plain JavaScript: a response body is whatever \<^verbatim>\<open>response.json()\<close>
  yields, and every envelope, snapshot and conversation entry is an object literal.
  One datatype carries them all. \<open>Undefined\<close> is the value of a missing property; a JSON
  body never holds it. An object is its list of properties, the binding in effect first.
  Strings are lists of UTF-8 bytes.

  Numbers are IEEE doubles, which the embedding does not compute with. The type of
  numbers is a parameter \<open>'n\<close>, and the four primitives of the engine that the code
  applies to numbers come in a record: the literal \<^verbatim>\<open>0\<close>, ToBoolean and ToString on a
  number, and the reading of a number off a string, which \<^verbatim>\<open>parseFloat\<close> does once it
  has converted its argument to a string. Every theorem below holds for every engine.
\<close>

datatype 'n jsval =
    Undefined
  | Null
  | Bool bool
  | Num 'n
  | Str string
  | Arr "'n jsval list"
  | Obj "(string \<times> 'n jsval) list"

record 'n js_numbers =
  num_zero :: 'n
  num_truthy :: "'n \<Rightarrow> bool"
  num_to_string :: "'n \<Rightarrow> string"
  parse_number :: "string \<Rightarrow> 'n"

datatype js_error = JsError (err_name: string) (err_message: string)

text \<open>ToBoolean, as \<^verbatim>\<open>||\<close>, \<^verbatim>\<open>&&\<close>, \<^verbatim>\<open>!\<close> and \<^verbatim>\<open>if\<close> apply it.\<close>

fun truthy :: "'n js_numbers \<Rightarrow> 'n jsval \<Rightarrow> bool" where
  "truthy J Undefined = False"
| "truthy J Null = False"
| "truthy J (Bool b) = b"
| "truthy J (Num n) = num_truthy J n"
| "truthy J (Str s) = (s \<noteq> [])"
| "truthy J (Arr xs) = True"
| "truthy J (Obj kvs) = True"

text \<open>\<^verbatim>\<open>a || b\<close>: the left operand when it is truthy, else the right one.\<close>

definition js_or :: "'n js_numbers \<Rightarrow> 'n jsval \<Rightarrow> 'n jsval \<Rightarrow> 'n jsval" where
  "js_or J a b = (if truthy J a then a else b)"

text \<open>Sequencing of steps that may throw: the first error ends the sequence.\<close>

definition bind_exn :: "js_error + 'a \<Rightarrow> ('a \<Rightarrow> js_error + 'b) \<Rightarrow> js_error + 'b" where
  "bind_exn m f = (case m of Inl e \<Rightarrow> Inl e | Inr x \<Rightarrow> f x)"

fun collect :: "(js_error + 'a) list \<Rightarrow> js_error + 'a list" where
  "collect [] = Inr []"
| "collect (m # ms) = bind_exn m (\<lambda>x. bind_exn (collect ms) (\<lambda>xs. Inr (x # xs)))"

text \<open>
  ToString, as a template literal and \<^verbatim>\<open>parseFloat\<close> apply it. An array is joined with
  commas, its elements converted in turn, a \<^verbatim>\<open>null\<close> or \<^verbatim>\<open>undefined\<close> element giving the
  empty string. A plain object prints as \<^verbatim>\<open>[object Object]\<close> through the \<^verbatim>\<open>toString\<close> it
  inherits. An object with a \<^verbatim>\<open>toString\<close> key of its own has no such method: no value of
  a JSON body can be called, the inherited \<^verbatim>\<open>valueOf\<close> gives the object back, and the
  conversion throws a TypeError.
\<close>

definition no_primitive :: js_error where
  "no_primitive = JsError ''TypeError'' ''Cannot convert object to primitive value''"

fun join_comma :: "string list \<Rightarrow> string" where
  "join_comma [] = []"
| "join_comma [s] = s"
| "join_comma (s # t # ss) = s @ '','' @ join_comma (t # ss)"

fun to_string :: "'n js_numbers \<Rightarrow> 'n jsval \<Rightarrow> js_error + string" where
  "to_string J Undefined = Inr ''undefined''"
| "to_string J Null = Inr ''null''"
| "to_string J (Bool b) = Inr (if b then ''true'' else ''false'')"
| "to_string J (Num n) = Inr (num_to_string J n)"
| "to_string J (Str s) = Inr s"
| "to_string J (Arr xs) =
     bind_exn
       (collect (map (\<lambda>x. case x of Undefined \<Rightarrow> Inr [] | Null \<Rightarrow> Inr [] | _ \<Rightarrow> to_string J x) xs))
       (\<lambda>parts. Inr (join_comma parts))"
| "to_string J (Obj kvs) =
     (if ''toString'' \<in> set (map fst kvs) then Inl no_primitive else Inr ''[object Object]'')"

text \<open>The global \<^verbatim>\<open>parseFloat\<close>: its argument converted to a string, then read.\<close>

definition parseFloat :: "'n js_numbers \<Rightarrow> 'n jsval \<Rightarrow> js_error + 'n" where
  "parseFloat J v = bind_exn (to_string J v) (\<lambda>s. Inr (parse_number J s))"

text \<open>
  Reading a property. On \<^verbatim>\<open>null\<close> and \<^verbatim>\<open>undefined\<close> the read throws a TypeError; on an
  object it gives the property, or \<^verbatim>\<open>undefined\<close> when there is none; on any other value
  it gives \<^verbatim>\<open>undefined\<close> (the property names the code reads are none of the built-in
  ones of objects, strings, arrays, numbers or booleans).
\<close>

definition null_read :: js_error where
  "null_read = JsError ''TypeError'' ''Cannot read properties of null''"

fun get_prop :: "'n jsval \<Rightarrow> string \<Rightarrow> js_error + 'n jsval" where
  "get_prop Undefined k = Inl null_read"
| "get_prop Null k = Inl null_read"
| "get_prop (Obj kvs) k = Inr (case map_of kvs k of None \<Rightarrow> Undefined | Some v \<Rightarrow> v)"
| "get_prop v k = Inr Undefined"

text \<open>\<^verbatim>\<open>String.prototype.includes\<close>: the pattern occurs somewhere in the string.\<close>

fun starts_with :: "string \<Rightarrow> string \<Rightarrow> bool" where
  "starts_with s [] = True"
| "starts_with [] (p # ps) = False"
| "starts_with (c # cs) (p # ps) = (c = p \<and> starts_with cs ps)"

fun str_includes :: "string \<Rightarrow> string \<Rightarrow> bool" where
  "str_includes [] p = (p = [])"
| "str_includes (c # cs) p = (starts_with (c # cs) p \<or> str_includes cs p)"

section \<open>The Request Gateway: \<^verbatim>\<open>apiFetch\<close>\<close>

text \<open>
  The network is the environment. What it does with one request is a \<open>reply\<close>: after
  \<open>fetch_ms\<close> milliseconds the promise of \<^verbatim>\<open>fetch\<close> would settle, either rejected with
  an error or resolved with a response (its status and what reading its body as JSON
  gives); reading the body takes \<open>body_ms\<close> more. Times count from the call, and
  every operation of the network settles after a finite time.
\<close>

datatype 'n body_read = BodyValue "'n jsval" | BodyError js_error

datatype 'n fetch_outcome = FetchRejected js_error | FetchResponse nat "'n body_read"

record 'n reply =
  fetch_ms :: nat
  outcome :: "'n fetch_outcome"
  body_ms :: nat

record 'n options =
  http_method :: "string option"
  body :: "'n jsval option"

type_synonym 'n network = "string \<Rightarrow> 'n options \<Rightarrow> 'n reply"

datatype toast = ToastError string | ToastLoading string | ToastSuccess string | ToastDismiss

record 'n gateway_result =
  envelope :: "'n jsval"
  resolved_ms :: nat
  aborted :: bool
  toasts :: "toast list"

definition TIMEOUT_MS :: nat where
  "TIMEOUT_MS = 10000"

text \<open>\<^verbatim>\<open>response.ok\<close> is true for the statuses 200 to 299 (the Fetch standard).\<close>

definition response_ok :: "nat \<Rightarrow> bool" where
  "response_ok status = (200 \<le> status \<and> status \<le> 299)"

definition success_envelope :: "'n jsval \<Rightarrow> 'n jsval" where
  "success_envelope data = Obj [(''success'', Bool True), (''data'', data)]"

definition failure_envelope :: "string \<Rightarrow> 'n jsval" where
  "failure_envelope errorMsg = Obj [(''success'', Bool False), (''error'', Str errorMsg)]"

definition default_error_message :: string where
  "default_error_message = ''An unexpected error occurred''"

definition not_found_message :: string where
  "not_found_message = ''Resource not found (404)''"

definition rate_limit_message :: string where
  "rate_limit_message = ''Rate limit exceeded. Please wait a moment.''"

definition server_error_message :: string where
  "server_error_message = ''Server error. Please try again later.''"

definition timeout_message :: string where
  "timeout_message = ''Request timed out. Backend is slow or unreachable.''"

definition unreachable_message :: string where
  "unreachable_message = ''Cannot connect to backend. Is the server running?''"

text \<open>
  The inner \<^verbatim>\<open>try\<close> of the error branch:
  \<^verbatim>\<open>errorMessage = errorData.detail || errorData.message || errorMessage\<close>, with the
  initial message kept when the body does not parse or a read throws.
\<close>

definition parse_error_message :: "'n js_numbers \<Rightarrow> 'n body_read \<Rightarrow> 'n jsval" where
  "parse_error_message J b =
     (case b of
        BodyError e \<Rightarrow> Str default_error_message
      | BodyValue errorData \<Rightarrow>
          (case get_prop errorData ''detail'' of
             Inl e \<Rightarrow> Str default_error_message
           | Inr detail \<Rightarrow>
               if truthy J detail then detail
               else (case get_prop errorData ''message'' of
                       Inl e \<Rightarrow> Str default_error_message
                     | Inr message \<Rightarrow> js_or J message (Str default_error_message))))"

text \<open>
  The \<^verbatim>\<open>switch\<close> on the status, which runs after the body has been looked at. Its
  default branch converts the message in a template literal, which may throw.
\<close>

definition status_message :: "'n js_numbers \<Rightarrow> nat \<Rightarrow> 'n jsval \<Rightarrow> js_error + string" where
  "status_message J status errorMessage =
     (if status = 404 then Inr not_found_message
      else if status = 429 then Inr rate_limit_message
      else if status = 500 \<or> status = 502 \<or> status = 503 then Inr server_error_message
      else bind_exn (to_string J errorMessage) (\<lambda>text. Inr (''Error: '' @ text)))"

text \<open>
  What the error branch throws: \<^verbatim>\<open>new Error(errorMessage)\<close>, or the error of the template
  literal when that threw first.
\<close>

definition status_error :: "'n js_numbers \<Rightarrow> nat \<Rightarrow> 'n jsval \<Rightarrow> js_error" where
  "status_error J status errorMessage =
     (case status_message J status errorMessage of
        Inl error \<Rightarrow> error
      | Inr message \<Rightarrow> JsError ''Error'' message)"

text \<open>
  The \<^verbatim>\<open>try\<close> block ends by returning an envelope or by throwing, at some time. The
  timer set before the call fires at \<open>TIMEOUT_MS\<close> unless the promise of \<^verbatim>\<open>fetch\<close> has
  settled before (at the very same millisecond the model lets the timer win): it aborts
  the request, and \<^verbatim>\<open>fetch\<close> rejects with an \<^verbatim>\<open>AbortError\<close>. Once \<^verbatim>\<open>fetch\<close> has
  resolved, \<^verbatim>\<open>clearTimeout\<close> runs, before the body is read.
\<close>

datatype 'n attempt = Returned "'n jsval" nat | Threw js_error nat bool

definition abort_error :: js_error where
  "abort_error = JsError ''AbortError'' ''The operation was aborted.''"

definition try_block :: "'n js_numbers \<Rightarrow> 'n reply \<Rightarrow> 'n attempt" where
  "try_block J r =
     (if TIMEOUT_MS \<le> fetch_ms r then Threw abort_error TIMEOUT_MS True
      else (case outcome r of
              FetchRejected e \<Rightarrow> Threw e (fetch_ms r) False
            | FetchResponse status b \<Rightarrow>
                if \<not> response_ok status then
                  Threw (status_error J status (parse_error_message J b))
                    (fetch_ms r + body_ms r) False
                else (case b of
                        BodyError e \<Rightarrow> Threw e (fetch_ms r + body_ms r) False
                      | BodyValue data \<Rightarrow> Returned (success_envelope data) (fetch_ms r + body_ms r))))"

text \<open>The \<^verbatim>\<open>catch\<close> block chooses the message from the error's name and message.\<close>

definition catch_message :: "js_error \<Rightarrow> string" where
  "catch_message error =
     (if err_name error = ''AbortError'' then timeout_message
      else if str_includes (err_message error) ''Failed to fetch''
              \<or> str_includes (err_message error) ''NetworkError'' then unreachable_message
      else err_message error)"

definition apiFetch ::
  "'n js_numbers \<Rightarrow> 'n network \<Rightarrow> string \<Rightarrow> 'n options \<Rightarrow> js_error + 'n gateway_result" where
  "apiFetch J net endpoint opts =
     (case try_block J (net endpoint opts) of
        Returned env t \<Rightarrow> Inr \<lparr>envelope = env, resolved_ms = t, aborted = False, toasts = []\<rparr>
      | Threw error t ab \<Rightarrow>
          Inr \<lparr>envelope = failure_envelope (catch_message error), resolved_ms = t,
               aborted = ab, toasts = [ToastError (catch_message error)]\<rparr>)"

section \<open>The \<^verbatim>\<open>api\<close> object\<close>

text \<open>
  The endpoint is appended to the configured base address, and the headers are the same
  for every call, so a request is told by its endpoint and options. A \<^verbatim>\<open>POST\<close> body is
  kept as the object handed to \<^verbatim>\<open>JSON.stringify\<close>.
\<close>

definition AGENT_IDS :: "string list" where
  "AGENT_IDS = [''coordinator'', ''researcher'', ''coder'']"

definition circuit_endpoint :: "string \<Rightarrow> string" where
  "circuit_endpoint agentId = ''/api/agents/'' @ agentId @ ''/circuit''"

definition cost_endpoint :: "string \<Rightarrow> string" where
  "cost_endpoint agentId = ''/api/agents/'' @ agentId @ ''/cost''"

definition get_options :: "'n options" where
  "get_options = \<lparr>http_method = None, body = None\<rparr>"

definition post_options :: "'n jsval \<Rightarrow> 'n options" where
  "post_options b = \<lparr>http_method = Some ''POST'', body = Some b\<rparr>"

definition getAgentStatus ::
  "'n js_numbers \<Rightarrow> 'n network \<Rightarrow> string \<Rightarrow> js_error + 'n gateway_result" where
  "getAgentStatus J net agentId = apiFetch J net (circuit_endpoint agentId) get_options"

definition getAgentCost ::
  "'n js_numbers \<Rightarrow> 'n network \<Rightarrow> string \<Rightarrow> js_error + 'n gateway_result" where
  "getAgentCost J net agentId = apiFetch J net (cost_endpoint agentId) get_options"

text \<open>
  \<^verbatim>\<open>sendQuery\<close> and \<^verbatim>\<open>sendSimpleChat\<close> wrap the call in a loading toast, dismiss it, and
  announce a success when \<^verbatim>\<open>result.success\<close> is truthy.
\<close>

definition announced ::
  "'n js_numbers \<Rightarrow> string \<Rightarrow> js_error + 'n gateway_result \<Rightarrow> js_error + 'n gateway_result" where
  "announced J waiting call =
     bind_exn call (\<lambda>r.
     bind_exn (get_prop (envelope r) ''success'') (\<lambda>ok.
       Inr (r\<lparr>toasts := [ToastLoading waiting] @ toasts r @ [ToastDismiss]
                  @ (if truthy J ok then [ToastSuccess ''Response received!''] else [])\<rparr>)))"

definition sendQuery ::
  "'n js_numbers \<Rightarrow> 'n network \<Rightarrow> string \<Rightarrow> string \<Rightarrow> bool \<Rightarrow> js_error + 'n gateway_result" where
  "sendQuery J net query agentId forceAll =
     announced J ''Processing query...''
       (apiFetch J net ''/api/query''
          (post_options (Obj [(''query'', Str query), (''agent_id'', Str agentId),
                              (''force_all_agents'', Bool forceAll)])))"

definition sendSimpleChat ::
  "'n js_numbers \<Rightarrow> 'n network \<Rightarrow> string \<Rightarrow> string \<Rightarrow> js_error + 'n gateway_result" where
  "sendSimpleChat J net query agentId =
     announced J ''Sending message...''
       (apiFetch J net ''/api/chat''
          (post_options (Obj [(''query'', Str query), (''agent_id'', Str agentId)])))"

section \<open>The application state\<close>

text \<open>
  The React state of \<^verbatim>\<open>App\<close>, with one more field: \<open>trace\<close> lists, in program order,
  the gateway calls issued, the points where an \<^verbatim>\<open>await\<close> resumed (with the calls it
  waited for), the console errors and the state setters run. A state setter takes effect
  at once. Toasts stay in the gateway's result: the two calls of a pair finish in an
  order the network decides.
\<close>

datatype event = Issued string | Resumed "string list" | ConsoleError string | Setter string

record 'n app_state =
  input :: string
  messages :: "'n jsval list"
  agents :: "string \<rightharpoonup> 'n jsval"
  loading :: bool
  loadingAgents :: bool
  backendOnline :: bool
  chatMode :: string
  forceAllAgents :: bool
  selectedAgent :: string
  trace :: "event list"

section \<open>The Status Aggregator: \<^verbatim>\<open>refreshAgentData\<close>\<close>

text \<open>
  The object literal stored for one agent, its properties evaluated in order; each read
  and the call of \<^verbatim>\<open>parseFloat\<close> may throw.
\<close>

definition agent_snapshot ::
  "'n js_numbers \<Rightarrow> string \<Rightarrow> 'n jsval \<Rightarrow> 'n jsval \<Rightarrow> js_error + 'n jsval" where
  "agent_snapshot J agentId statusRes costRes =
     bind_exn (get_prop statusRes ''data'') (\<lambda>d1.
     bind_exn (get_prop d1 ''status'') (\<lambda>circuitStatus.
     bind_exn (get_prop statusRes ''data'') (\<lambda>d2.
     bind_exn (get_prop d2 ''budget_limit_usd'') (\<lambda>limit.
     bind_exn (parseFloat J limit) (\<lambda>budgetLimit.
     bind_exn (get_prop costRes ''data'') (\<lambda>d3.
     bind_exn (get_prop d3 ''total_cost_usd'') (\<lambda>cost.
       Inr (Obj [(''name'', Str agentId), (''circuitStatus'', circuitStatus),
                 (''budgetLimit'', Num budgetLimit), (''cost'', cost)]))))))))"

text \<open>\<^verbatim>\<open>Promise.all\<close> of two promises: both results, or a rejection.\<close>

definition promise_pair :: "js_error + 'a \<Rightarrow> js_error + 'b \<Rightarrow> js_error + ('a \<times> 'b)" where
  "promise_pair p q = bind_exn p (\<lambda>x. bind_exn q (\<lambda>y. Inr (x, y)))"

text \<open>
  The \<^verbatim>\<open>try\<close> block of one round of the loop: \<open>Inr (Some snapshot)\<close> when the snapshot
  was stored and the count raised, \<open>Inr None\<close> when the test failed, \<open>Inl\<close> when it threw.
\<close>

definition poll_pair ::
  "'n js_numbers \<Rightarrow> 'n network \<Rightarrow> string \<Rightarrow> js_error + 'n jsval option" where
  "poll_pair J net agentId =
     bind_exn (promise_pair (getAgentStatus J net agentId) (getAgentCost J net agentId)) (\<lambda>(s, c).
     bind_exn (get_prop (envelope s) ''success'') (\<lambda>ok1.
       if truthy J ok1 then
         bind_exn (get_prop (envelope c) ''success'') (\<lambda>ok2.
           if truthy J ok2 then
             bind_exn (agent_snapshot J agentId (envelope s) (envelope c)) (\<lambda>snapshot.
               Inr (Some snapshot))
           else Inr None)
       else Inr None))"

text \<open>
  The \<^verbatim>\<open>for\<close> loop, carrying \<^verbatim>\<open>newAgentData\<close>, \<^verbatim>\<open>successCount\<close> and the trace. Each round
  issues the two calls of one agent and awaits them both before the next round starts.
  The assignment \<^verbatim>\<open>newAgentData[id] = ...\<close> stores a property for every key but
  \<^verbatim>\<open>__proto__\<close>, where it sets the prototype of the object and leaves its properties as
  they are.
\<close>

fun refresh_loop ::
  "'n js_numbers \<Rightarrow> 'n network \<Rightarrow> string list \<Rightarrow>
   (string \<rightharpoonup> 'n jsval) \<times> nat \<times> event list \<Rightarrow> (string \<rightharpoonup> 'n jsval) \<times> nat \<times> event list" where
  "refresh_loop J net [] acc = acc"
| "refresh_loop J net (agentId # ids) (newAgentData, successCount, tr) =
     (let tr' = tr @ [Issued (circuit_endpoint agentId), Issued (cost_endpoint agentId),
                      Resumed [circuit_endpoint agentId, cost_endpoint agentId]]
      in case poll_pair J net agentId of
           Inl error \<Rightarrow>
             refresh_loop J net ids
               (newAgentData, successCount,
                tr' @ [ConsoleError (''Error processing data for '' @ agentId)])
         | Inr None \<Rightarrow> refresh_loop J net ids (newAgentData, successCount, tr')
         | Inr (Some snapshot) \<Rightarrow>
             refresh_loop J net ids
               (if agentId = ''__proto__'' then newAgentData
                else newAgentData(agentId \<mapsto> snapshot),
                successCount + 1, tr'))"

text \<open>
  The source loops over the module constant \<open>AGENT_IDS\<close>; here the list is an argument,
  and every caller passes \<open>AGENT_IDS\<close>.
\<close>

definition refreshAgentData ::
  "'n js_numbers \<Rightarrow> 'n network \<Rightarrow> string list \<Rightarrow> 'n app_state \<Rightarrow> 'n app_state" where
  "refreshAgentData J net ids st =
     (let st1 = (if agents st = Map.empty
                 then st\<lparr>loadingAgents := True, trace := trace st @ [Setter ''setLoadingAgents'']\<rparr>
                 else st);
          (newAgentData, successCount, tr) = refresh_loop J net ids (Map.empty, 0, trace st1);
          st2 = (if successCount > 0
                 then st1\<lparr>agents := agents st1 ++ newAgentData, backendOnline := True,
                          trace := tr @ [Setter ''setAgents'', Setter ''setBackendOnline'']\<rparr>
                 else st1\<lparr>backendOnline := False, trace := tr @ [Setter ''setBackendOnline'']\<rparr>)
      in st2\<lparr>loadingAgents := False, trace := trace st2 @ [Setter ''setLoadingAgents'']\<rparr>)"

section \<open>The Conversation Dispatcher: \<^verbatim>\<open>handleSend\<close>\<close>

text \<open>
  \<^verbatim>\<open>String.prototype.trim\<close> removes the white space and line terminators of ECMAScript
  from both ends. In UTF-8 these are the byte sequences of U+0009 to U+000D, U+0020,
  U+00A0, U+1680, U+2000 to U+200A, U+2028, U+2029, U+202F, U+205F, U+3000 and U+FEFF.
\<close>

definition js_whitespace :: "string list" where
  "js_whitespace =
     [[CHR 0x09], [CHR 0x0A], [CHR 0x0B], [CHR 0x0C], [CHR 0x0D], [CHR 0x20],
      [CHR 0xC2, CHR 0xA0],
      [CHR 0xE1, CHR 0x9A, CHR 0x80],
      [CHR 0xE2, CHR 0x80, CHR 0x80], [CHR 0xE2, CHR 0x80, CHR 0x81],
      [CHR 0xE2, CHR 0x80, CHR 0x82], [CHR 0xE2, CHR 0x80, CHR 0x83],
      [CHR 0xE2, CHR 0x80, CHR 0x84], [CHR 0xE2, CHR 0x80, CHR 0x85],
      [CHR 0xE2, CHR 0x80, CHR 0x86], [CHR 0xE2, CHR 0x80, CHR 0x87],
      [CHR 0xE2, CHR 0x80, CHR 0x88], [CHR 0xE2, CHR 0x80, CHR 0x89],
      [CHR 0xE2, CHR 0x80, CHR 0x8A],
      [CHR 0xE2, CHR 0x80, CHR 0xA8], [CHR 0xE2, CHR 0x80, CHR 0xA9],
      [CHR 0xE2, CHR 0x80, CHR 0xAF],
      [CHR 0xE2, CHR 0x81, CHR 0x9F],
      [CHR 0xE3, CHR 0x80, CHR 0x80],
      [CHR 0xEF, CHR 0xBB, CHR 0xBF]]"

text \<open>One leading pattern removed, if the string starts with one.\<close>

fun strip_one :: "string list \<Rightarrow> string \<Rightarrow> string option" where
  "strip_one [] s = None"
| "strip_one (w # ws) s =
     (if w \<noteq> [] \<and> starts_with s w then Some (drop (length w) s) else strip_one ws s)"

lemma starts_with_length: "starts_with s w \<Longrightarrow> length w \<le> length s"
  by (induction s w rule: starts_with.induct) simp_all

lemma strip_one_shorter: "strip_one ws s = Some rest \<Longrightarrow> length rest < length s"
proof (induction ws)
  case Nil
  then show ?case by simp
next
  case (Cons w ws)
  show ?case
  proof (cases "w \<noteq> [] \<and> starts_with s w")
    case True
    then have "length w \<le> length s" and "0 < length w"
      by (simp_all add: starts_with_length)
    then have "length s - length w < length s"
      by arith
    with True Cons.prems show ?thesis by auto
  next
    case False
    with Cons show ?thesis by auto
  qed
qed

function trim_lead :: "string list \<Rightarrow> string \<Rightarrow> string" where
  "trim_lead ws s = (case strip_one ws s of None \<Rightarrow> s | Some rest \<Rightarrow> trim_lead ws rest)"
  by pat_completeness auto
termination
  by (relation "measure (\<lambda>(ws, s). length s)") (auto dest: strip_one_shorter)

declare trim_lead.simps [simp del]

definition trim :: "string \<Rightarrow> string" where
  "trim s = rev (trim_lead (map rev js_whitespace) (rev (trim_lead js_whitespace s)))"

text \<open>The warning sign of the error bubble, U+26A0 U+FE0F, in UTF-8.\<close>

definition warning_sign :: string where
  "warning_sign = [CHR 0xE2, CHR 0x9A, CHR 0xA0, CHR 0xEF, CHR 0xB8, CHR 0x8F]"

definition user_entry :: "string \<Rightarrow> 'n jsval" where
  "user_entry trimmed = Obj [(''role'', Str ''user''), (''content'', Str trimmed)]"

definition simple_entry :: "'n jsval \<Rightarrow> js_error + 'n jsval" where
  "simple_entry result =
     bind_exn (get_prop result ''data'') (\<lambda>d1.
     bind_exn (get_prop d1 ''response'') (\<lambda>content.
     bind_exn (get_prop result ''data'') (\<lambda>d2.
     bind_exn (get_prop d2 ''cost_usd'') (\<lambda>cost.
     bind_exn (get_prop result ''data'') (\<lambda>d3.
     bind_exn (get_prop d3 ''model_used'') (\<lambda>model_used.
     bind_exn (get_prop result ''data'') (\<lambda>d4.
     bind_exn (get_prop d4 ''agent_id'') (\<lambda>agent_id.
       Inr (Obj [(''role'', Str ''assistant''), (''content'', content), (''cost'', cost),
                 (''model_used'', model_used), (''agent_id'', agent_id)])))))))))"

definition query_entry :: "'n jsval \<Rightarrow> js_error + 'n jsval" where
  "query_entry result =
     bind_exn (get_prop result ''data'') (\<lambda>d1.
     bind_exn (get_prop d1 ''final_answer'') (\<lambda>content.
     bind_exn (get_prop result ''data'') (\<lambda>d2.
     bind_exn (get_prop d2 ''total_cost'') (\<lambda>cost.
     bind_exn (get_prop result ''data'') (\<lambda>d3.
     bind_exn (get_prop d3 ''agents_used'') (\<lambda>agents_used.
     bind_exn (get_prop result ''data'') (\<lambda>d4.
     bind_exn (get_prop d4 ''routing_decision'') (\<lambda>routing_decision.
       Inr (Obj [(''role'', Str ''assistant''), (''content'', content), (''cost'', cost),
                 (''agents_used'', agents_used), (''routing_decision'', routing_decision)])))))))))"

definition error_entry :: "'n js_numbers \<Rightarrow> 'n jsval \<Rightarrow> js_error + 'n jsval" where
  "error_entry J result =
     bind_exn (get_prop result ''error'') (\<lambda>error.
     bind_exn (to_string J (js_or J error (Str ''Failed to get response.''))) (\<lambda>text.
       Inr (Obj [(''role'', Str ''assistant''),
                 (''content'', Str (warning_sign @ '' Error: '' @ text))])))"

definition critical_entry :: "'n jsval" where
  "critical_entry =
     Obj [(''role'', Str ''assistant''),
          (''content'', Str ''Critical Error: Client failed to process request.'')]"

definition append_message :: "'n jsval \<Rightarrow> 'n app_state \<Rightarrow> 'n app_state" where
  "append_message msg st =
     st\<lparr>messages := messages st @ [msg], trace := trace st @ [Setter ''setMessages'']\<rparr>"

text \<open>
  One branch of the mode test: the call is issued and awaited, and when
  \<^verbatim>\<open>result.success\<close> is truthy the assistant entry is built and appended. The state
  comes back with the envelope, or with the error thrown on the way.
\<close>

definition deliver ::
  "'n js_numbers \<Rightarrow> string \<Rightarrow> js_error + 'n gateway_result \<Rightarrow> ('n jsval \<Rightarrow> js_error + 'n jsval)
   \<Rightarrow> 'n app_state \<Rightarrow> (js_error + 'n jsval) \<times> 'n app_state" where
  "deliver J endpoint call entry st =
     (let st1 = st\<lparr>trace := trace st @ [Issued endpoint, Resumed [endpoint]]\<rparr>
      in case call of
           Inl error \<Rightarrow> (Inl error, st1)
         | Inr r \<Rightarrow>
             (case get_prop (envelope r) ''success'' of
                Inl error \<Rightarrow> (Inl error, st1)
              | Inr ok \<Rightarrow>
                  if truthy J ok then
                    (case entry (envelope r) of
                       Inl error \<Rightarrow> (Inl error, st1)
                     | Inr assistantMsg \<Rightarrow> (Inr (envelope r), append_message assistantMsg st1))
                  else (Inr (envelope r), st1)))"

text \<open>
  The \<^verbatim>\<open>try\<close> block of \<^verbatim>\<open>handleSend\<close>: the state it reached, and the error if it threw.
  The refresh is its last statement. (\<^verbatim>\<open>e.preventDefault()\<close>, which \<^verbatim>\<open>handleSend\<close> calls
  first, acts on the form event and not on the state; it is left out.)
\<close>

definition send_attempt ::
  "'n js_numbers \<Rightarrow> 'n network \<Rightarrow> string \<Rightarrow> 'n app_state \<Rightarrow> js_error option \<times> 'n app_state" where
  "send_attempt J net trimmed st =
     (case (if chatMode st = ''simple''
            then deliver J ''/api/chat'' (sendSimpleChat J net trimmed (selectedAgent st))
                   simple_entry st
            else deliver J ''/api/query'' (sendQuery J net trimmed ''user_agent'' (forceAllAgents st))
                   query_entry st) of
        (Inl error, st1) \<Rightarrow> (Some error, st1)
      | (Inr result, st1) \<Rightarrow>
          (case get_prop result ''success'' of
             Inl error \<Rightarrow> (Some error, st1)
           | Inr ok \<Rightarrow>
               if \<not> truthy J ok then
                 (case error_entry J result of
                    Inl error \<Rightarrow> (Some error, st1)
                  | Inr msg \<Rightarrow> (None, refreshAgentData J net AGENT_IDS (append_message msg st1)))
               else (None, refreshAgentData J net AGENT_IDS st1)))"

definition handleSend :: "'n js_numbers \<Rightarrow> 'n network \<Rightarrow> 'n app_state \<Rightarrow> 'n app_state" where
  "handleSend J net st =
     (let trimmed = trim (input st) in
      if trimmed = [] then st
      else
        let st0 = append_message (user_entry trimmed) st;
            st1 = st0\<lparr>input := [], loading := True,
                      trace := trace st0 @ [Setter ''setInput'', Setter ''setLoading'']\<rparr>;
            st2 = (case send_attempt J net trimmed st1 of
                     (None, st') \<Rightarrow> st'
                   | (Some error, st') \<Rightarrow> append_message critical_entry st')
        in st2\<lparr>loading := False, trace := trace st2 @ [Setter ''setLoading'']\<rparr>)"

section \<open>The polling loop of the 3D view: \<^verbatim>\<open>fetchStates\<close>\<close>

text \<open>\<^verbatim>\<open>Promise.all\<close> of a list of promises: all results in order, or a rejection.\<close>

fun promise_all :: "(js_error + 'a) list \<Rightarrow> js_error + 'a list" where
  "promise_all [] = Inr []"
| "promise_all (p # ps) = bind_exn p (\<lambda>x. bind_exn (promise_all ps) (\<lambda>xs. Inr (x # xs)))"

text \<open>The object built for one agent from what \<^verbatim>\<open>api.getAgentStatus\<close> resolved to.\<close>

definition mesh_node :: "'n js_numbers \<Rightarrow> 'n network \<Rightarrow> string \<Rightarrow> js_error + 'n jsval" where
  "mesh_node J net agentId =
     bind_exn (getAgentStatus J net agentId) (\<lambda>r.
     bind_exn (get_prop (envelope r) ''status'') (\<lambda>status.
     bind_exn (get_prop (envelope r) ''failure_count'') (\<lambda>failure_count.
       Inr (Obj [(''id'', Str agentId), (''status'', status),
                 (''failureCount'', js_or J failure_count (Num (num_zero J)))]))))"

text \<open>
  One poll, run at mount and then every 2000 ms. It takes the list the component shows
  and gives the list it shows afterwards: the results, or the old list when the
  \<^verbatim>\<open>catch\<close> ran.
\<close>

definition fetchStates :: "'n js_numbers \<Rightarrow> 'n network \<Rightarrow> 'n jsval list \<Rightarrow> 'n jsval list" where
  "fetchStates J net shown =
     (case promise_all (map (mesh_node J net) AGENT_IDS) of
        Inl err \<Rightarrow> shown
      | Inr results \<Rightarrow> results)"

section \<open>Notions the properties are stated with\<close>

subsection \<open>Reading an envelope\<close>

text \<open>
  A call has succeeded when it resolved to an envelope whose \<^verbatim>\<open>success\<close> is \<^verbatim>\<open>true\<close>; its
  payload is the envelope's \<^verbatim>\<open>data\<close>. \<open>field\<close> reads a property where the read cannot
  throw. A call has a payload when that is neither \<^verbatim>\<open>null\<close> nor \<^verbatim>\<open>undefined\<close>.
\<close>

definition succeeded :: "js_error + 'n gateway_result \<Rightarrow> bool" where
  "succeeded call =
     (case call of Inl e \<Rightarrow> False | Inr r \<Rightarrow> get_prop (envelope r) ''success'' = Inr (Bool True))"

definition field :: "'n jsval \<Rightarrow> string \<Rightarrow> 'n jsval" where
  "field v k = (case get_prop v k of Inl e \<Rightarrow> Undefined | Inr w \<Rightarrow> w)"

definition payload :: "js_error + 'n gateway_result \<Rightarrow> 'n jsval" where
  "payload call = (case call of Inl e \<Rightarrow> Undefined | Inr r \<Rightarrow> field (envelope r) ''data'')"

definition has_payload :: "js_error + 'n gateway_result \<Rightarrow> bool" where
  "has_payload call = (payload call \<noteq> Undefined \<and> payload call \<noteq> Null)"

text \<open>
  A value is printable when its conversion to a string does not throw; \<open>text_of\<close> is
  the string it then gives.
\<close>

definition printable :: "'n js_numbers \<Rightarrow> 'n jsval \<Rightarrow> bool" where
  "printable J v = (case to_string J v of Inl e \<Rightarrow> False | Inr s \<Rightarrow> True)"

definition text_of :: "'n js_numbers \<Rightarrow> 'n jsval \<Rightarrow> string" where
  "text_of J v = (case to_string J v of Inl e \<Rightarrow> [] | Inr s \<Rightarrow> s)"

fun own_keys :: "'n jsval \<Rightarrow> string list" where
  "own_keys (Obj kvs) = map fst kvs"
| "own_keys v = []"

subsection \<open>Error messages\<close>

text \<open>
  The value of a field of an error body: present when the body parses, the field can be
  read and its value is truthy. \<open>body_error_value\<close> prefers \<^verbatim>\<open>detail\<close> to \<^verbatim>\<open>message\<close> and
  falls back to the default message.
\<close>

definition field_value :: "'n js_numbers \<Rightarrow> 'n body_read \<Rightarrow> string \<Rightarrow> 'n jsval option" where
  "field_value J b k =
     (case b of
        BodyError e \<Rightarrow> None
      | BodyValue errorData \<Rightarrow>
          (case get_prop errorData k of
             Inl e \<Rightarrow> None
           | Inr v \<Rightarrow> if truthy J v then Some v else None))"

definition body_error_value :: "'n js_numbers \<Rightarrow> 'n body_read \<Rightarrow> 'n jsval" where
  "body_error_value J b =
     (case field_value J b ''detail'' of
        Some v \<Rightarrow> v
      | None \<Rightarrow> (case field_value J b ''message'' of
                   Some v \<Rightarrow> v
                 | None \<Rightarrow> Str default_error_message))"

definition names_network :: "string \<Rightarrow> bool" where
  "names_network s = (str_includes s ''Failed to fetch'' \<or> str_includes s ''NetworkError'')"

subsection \<open>One agent's pair of calls\<close>

definition pair_succeeds :: "'n js_numbers \<Rightarrow> 'n network \<Rightarrow> string \<Rightarrow> bool" where
  "pair_succeeds J net agentId =
     (succeeded (getAgentStatus J net agentId) \<and> succeeded (getAgentCost J net agentId))"

text \<open>
  The budget limit the circuit call reported. A pair is usable when both calls succeeded
  with a payload and that limit is printable: then nothing throws while the snapshot is
  built.
\<close>

definition budget_limit :: "'n js_numbers \<Rightarrow> 'n network \<Rightarrow> string \<Rightarrow> 'n jsval" where
  "budget_limit J net agentId = field (payload (getAgentStatus J net agentId)) ''budget_limit_usd''"

definition pair_usable :: "'n js_numbers \<Rightarrow> 'n network \<Rightarrow> string \<Rightarrow> bool" where
  "pair_usable J net agentId =
     (pair_succeeds J net agentId
      \<and> has_payload (getAgentStatus J net agentId) \<and> has_payload (getAgentCost J net agentId)
      \<and> printable J (budget_limit J net agentId))"

text \<open>The snapshot this cycle's two payloads give.\<close>

definition fresh_snapshot :: "'n js_numbers \<Rightarrow> 'n network \<Rightarrow> string \<Rightarrow> 'n jsval" where
  "fresh_snapshot J net agentId =
     Obj [(''name'', Str agentId),
          (''circuitStatus'', field (payload (getAgentStatus J net agentId)) ''status''),
          (''budgetLimit'', Num (parse_number J (text_of J (budget_limit J net agentId)))),
          (''cost'', field (payload (getAgentCost J net agentId)) ''total_cost_usd'')]"

definition fresh_entries ::
  "'n js_numbers \<Rightarrow> 'n network \<Rightarrow> string list \<Rightarrow> string \<rightharpoonup> 'n jsval" where
  "fresh_entries J net ids =
     (\<lambda>agentId. if agentId \<in> set ids \<and> pair_usable J net agentId \<and> agentId \<noteq> ''__proto__''
                then Some (fresh_snapshot J net agentId) else None)"

text \<open>
  What one agent contributes to the trace: both calls issued, then the \<^verbatim>\<open>await\<close> resumed,
  then the console error if building the snapshot threw.
\<close>

definition pair_events :: "'n js_numbers \<Rightarrow> 'n network \<Rightarrow> string \<Rightarrow> event list" where
  "pair_events J net agentId =
     [Issued (circuit_endpoint agentId), Issued (cost_endpoint agentId),
      Resumed [circuit_endpoint agentId, cost_endpoint agentId]]
     @ (if pair_succeeds J net agentId \<and> \<not> pair_usable J net agentId
        then [ConsoleError (''Error processing data for '' @ agentId)] else [])"

text \<open>
  A trace is a fan-out when every call is issued before the first \<^verbatim>\<open>await\<close> resumes.
\<close>

fun is_issued :: "event \<Rightarrow> bool" where
  "is_issued (Issued e) = True"
| "is_issued ev = False"

fun fanned_out :: "event list \<Rightarrow> bool" where
  "fanned_out [] = True"
| "fanned_out (Resumed es # tr) = (filter is_issued tr = [])"
| "fanned_out (ev # tr) = fanned_out tr"

subsection \<open>One exchange\<close>

definition whitespace_only :: "string \<Rightarrow> bool" where
  "whitespace_only s = (\<exists>ws. set ws \<subseteq> set js_whitespace \<and> s = concat ws)"

text \<open>The call \<^verbatim>\<open>handleSend\<close> makes in a state, and the endpoint it goes to.\<close>

definition chat_call ::
  "'n js_numbers \<Rightarrow> 'n network \<Rightarrow> 'n app_state \<Rightarrow> js_error + 'n gateway_result" where
  "chat_call J net st =
     (if chatMode st = ''simple''
      then sendSimpleChat J net (trim (input st)) (selectedAgent st)
      else sendQuery J net (trim (input st)) ''user_agent'' (forceAllAgents st))"

definition chat_endpoint :: "'n app_state \<Rightarrow> string" where
  "chat_endpoint st = (if chatMode st = ''simple'' then ''/api/chat'' else ''/api/query'')"

text \<open>The three assistant entries an exchange can end with, by the payload or message.\<close>

definition simple_shape :: "'n jsval \<Rightarrow> 'n jsval" where
  "simple_shape d =
     Obj [(''role'', Str ''assistant''), (''content'', field d ''response''),
          (''cost'', field d ''cost_usd''), (''model_used'', field d ''model_used''),
          (''agent_id'', field d ''agent_id'')]"

definition multi_agent_shape :: "'n jsval \<Rightarrow> 'n jsval" where
  "multi_agent_shape d =
     Obj [(''role'', Str ''assistant''), (''content'', field d ''final_answer''),
          (''cost'', field d ''total_cost''), (''agents_used'', field d ''agents_used''),
          (''routing_decision'', field d ''routing_decision'')]"

definition error_shape :: "string \<Rightarrow> 'n jsval" where
  "error_shape m =
     Obj [(''role'', Str ''assistant''),
          (''content'', Str (warning_sign @ '' Error: ''
             @ (if m = [] then ''Failed to get response.'' else m)))]"

text \<open>
  \<open>sending\<close> is the state in which the \<^verbatim>\<open>try\<close> block starts: the user entry appended,
  the input cleared, the loading flag set. \<open>after_exchange\<close> is the state once the call
  has been awaited and the assistant entry appended.
\<close>

definition sending :: "'n app_state \<Rightarrow> 'n app_state" where
  "sending st =
     st\<lparr>input := [], loading := True,
        messages := messages st @ [user_entry (trim (input st))],
        trace := trace st @ [Setter ''setMessages'', Setter ''setInput'', Setter ''setLoading'']\<rparr>"

definition after_exchange :: "'n app_state \<Rightarrow> 'n jsval \<Rightarrow> 'n app_state" where
  "after_exchange st assistantMsg =
     st\<lparr>input := [], loading := True,
        messages := messages st @ [user_entry (trim (input st)), assistantMsg],
        trace := trace st @ [Setter ''setMessages'', Setter ''setInput'', Setter ''setLoading'',
                             Issued (chat_endpoint st), Resumed [chat_endpoint st],
                             Setter ''setMessages'']\<rparr>"

section \<open>Concrete inputs\<close>

text \<open>
  An engine for the closed examples, with integers for numbers; the integers of
  magnitude up to \<open>2 ^ 53\<close> are the ones a double holds exactly. ToString follows
  \<^verbatim>\<open>Number::toString\<close>: the decimal digits, and from 22 digits on the exponent form.
  \<open>whole_number\<close> reads a string made of an optional sign, digits and, optionally, a
  point followed by zeros; \<^verbatim>\<open>parseFloat\<close> gives that integer for such a string. Any other
  string denotes a fraction or \<^verbatim>\<open>NaN\<close>, which the integers do not have: the engine
  answers 0 there, and no example reads such a string.
\<close>

function decimal :: "nat \<Rightarrow> string" where
  "decimal n =
     (if n < 10 then [char_of (48 + n)] else decimal (n div 10) @ [char_of (48 + n mod 10)])"
  by pat_completeness auto
termination
  by (relation "measure id") auto

declare decimal.simps [simp del]

definition number_text :: "nat \<Rightarrow> string" where
  "number_text n =
     (let ds = decimal n in
      if length ds \<le> 21 then ds
      else (let s = rev (dropWhile (\<lambda>c. c = CHR ''0'') (rev ds)) in
            (if length s = 1 then s else hd s # ''.'' @ tl s) @ ''e+'' @ decimal (length ds - 1)))"

fun read_digits :: "nat \<Rightarrow> string \<Rightarrow> nat \<times> string" where
  "read_digits acc [] = (acc, [])"
| "read_digits acc (c # cs) =
     (if 48 \<le> (of_char c :: nat) \<and> (of_char c :: nat) \<le> 57
      then read_digits (10 * acc + (of_char c - 48)) cs
      else (acc, c # cs))"

definition whole_number :: "string \<Rightarrow> int option" where
  "whole_number s =
     (let negative = (s \<noteq> [] \<and> hd s = CHR ''-'');
          unsigned = (if s \<noteq> [] \<and> (hd s = CHR ''-'' \<or> hd s = CHR ''+'') then tl s else s);
          (n, rest) = read_digits 0 unsigned
      in if length rest = length unsigned then None
         else if rest = [] \<or> (hd rest = CHR ''.'' \<and> list_all (\<lambda>c. c = CHR ''0'') (tl rest))
         then Some (if negative then - int n else int n)
         else None)"

definition int_engine :: "int js_numbers" where
  "int_engine =
     \<lparr>num_zero = 0, num_truthy = (\<lambda>n. n \<noteq> 0),
      num_to_string = (\<lambda>n. if n < 0 then ''-'' @ number_text (nat (- n)) else number_text (nat n)),
      parse_number = (\<lambda>s. case whole_number s of Some n \<Rightarrow> n | None \<Rightarrow> 0)\<rparr>"

text \<open>Replies of the network.\<close>

definition circuit_reply :: "int reply" where
  "circuit_reply =
     \<lparr>fetch_ms = 30,
      outcome = FetchResponse 200 (BodyValue (Obj
        [(''agent_id'', Str ''a''), (''status'', Str ''closed''), (''failure_count'', Num 2),
         (''budget_limit_usd'', Str ''10.00'')])),
      body_ms = 1\<rparr>"

definition cost_reply :: "int reply" where
  "cost_reply =
     \<lparr>fetch_ms = 30,
      outcome = FetchResponse 200 (BodyValue (Obj
        [(''agent_id'', Str ''a''), (''total_cost_usd'', Str ''0.25'')])),
      body_ms = 1\<rparr>"

definition null_reply :: "int reply" where
  "null_reply = \<lparr>fetch_ms = 30, outcome = FetchResponse 200 (BodyValue Null), body_ms = 1\<rparr>"

definition refused_reply :: "int reply" where
  "refused_reply =
     \<lparr>fetch_ms = 5, outcome = FetchRejected (JsError ''TypeError'' ''Failed to fetch''),
      body_ms = 0\<rparr>"

definition slow_body_reply :: "int reply" where
  "slow_body_reply =
     \<lparr>fetch_ms = 100, outcome = FetchResponse 200 (BodyValue (Obj [])), body_ms = 20000\<rparr>"

definition never_replies :: "int reply" where
  "never_replies =
     \<lparr>fetch_ms = 60000, outcome = FetchRejected (JsError ''TypeError'' ''Failed to fetch''),
      body_ms = 0\<rparr>"

definition not_found_reply :: "int reply" where
  "not_found_reply =
     \<lparr>fetch_ms = 40,
      outcome = FetchResponse 404 (BodyValue (Obj [(''detail'', Str ''Agent not found'')])),
      body_ms = 2\<rparr>"

definition unprocessable_reply :: "int reply" where
  "unprocessable_reply =
     \<lparr>fetch_ms = 40,
      outcome = FetchResponse 422 (BodyValue (Obj [(''detail'', Str ''Bad input'')])),
      body_ms = 2\<rparr>"

definition keyed_limit_reply :: "int reply" where
  "keyed_limit_reply =
     \<lparr>fetch_ms = 30,
      outcome = FetchResponse 200 (BodyValue (Obj
        [(''agent_id'', Str ''a''), (''status'', Str ''closed''),
         (''budget_limit_usd'', Obj [(''toString'', Num 1)])])),
      body_ms = 1\<rparr>"

definition keyed_detail_reply :: "int reply" where
  "keyed_detail_reply =
     \<lparr>fetch_ms = 40,
      outcome = FetchResponse 400 (BodyValue (Obj [(''detail'', Obj [(''toString'', Num 1)])])),
      body_ms = 2\<rparr>"

definition answer_reply :: "int reply" where
  "answer_reply =
     \<lparr>fetch_ms = 900,
      outcome = FetchResponse 200 (BodyValue (Obj
        [(''final_answer'', Str ''42''), (''total_cost'', Num 1),
         (''agents_used'', Arr [Str ''coder'']), (''routing_decision'', Str ''code task'')])),
      body_ms = 3\<rparr>"

text \<open>
  Networks. In \<open>scenario_net\<close> the circuit call of \<^verbatim>\<open>researcher\<close> is refused and every
  other call is answered; in \<open>null_cost_net\<close> every cost call is answered with the body
  \<^verbatim>\<open>null\<close>; in \<open>lone_null_net\<close> only \<^verbatim>\<open>coordinator\<close> is answered, its cost call with
  \<^verbatim>\<open>null\<close>; in \<open>keyed_limit_net\<close> only \<^verbatim>\<open>coordinator\<close> is answered, with a budget limit
  that is an object with a \<^verbatim>\<open>toString\<close> key.
\<close>

definition is_cost_endpoint :: "string \<Rightarrow> bool" where
  "is_cost_endpoint endpoint = (endpoint \<in> set (map cost_endpoint AGENT_IDS))"

definition scenario_net :: "int network" where
  "scenario_net endpoint opts =
     (if endpoint = circuit_endpoint ''researcher'' then refused_reply
      else if is_cost_endpoint endpoint then cost_reply else circuit_reply)"

definition null_cost_net :: "int network" where
  "null_cost_net endpoint opts = (if is_cost_endpoint endpoint then null_reply else circuit_reply)"

definition lone_null_net :: "int network" where
  "lone_null_net endpoint opts =
     (if endpoint = circuit_endpoint ''coordinator'' then circuit_reply
      else if endpoint = cost_endpoint ''coordinator'' then null_reply
      else refused_reply)"

definition keyed_limit_net :: "int network" where
  "keyed_limit_net endpoint opts =
     (if endpoint = circuit_endpoint ''coordinator'' then keyed_limit_reply
      else if endpoint = cost_endpoint ''coordinator'' then cost_reply
      else refused_reply)"

definition answering_net :: "int network" where
  "answering_net endpoint opts =
     (if endpoint = ''/api/query'' then answer_reply else scenario_net endpoint opts)"

definition null_answer_net :: "int network" where
  "null_answer_net endpoint opts =
     (if endpoint = ''/api/query'' \<or> endpoint = ''/api/chat'' then null_reply
      else scenario_net endpoint opts)"

text \<open>States of the application.\<close>

definition blank_state :: "int app_state" where
  "blank_state =
     \<lparr>input = [], messages = [], agents = Map.empty, loading = False, loadingAgents = True,
      backendOnline = True, chatMode = ''multi-agent'', forceAllAgents = False,
      selectedAgent = ''coordinator'', trace = []\<rparr>"

text \<open>
  A later state: the backend was found offline, and \<^verbatim>\<open>coordinator\<close> and \<^verbatim>\<open>researcher\<close>
  have snapshots from earlier cycles.
\<close>

definition old_snapshot :: "string \<Rightarrow> int jsval" where
  "old_snapshot agentId =
     Obj [(''name'', Str agentId), (''circuitStatus'', Str ''open''),
          (''budgetLimit'', Num 5), (''cost'', Str ''0.10'')]"

definition stale_state :: "int app_state" where
  "stale_state =
     \<lparr>input = [], messages = [],
      agents = [''coordinator'' \<mapsto> old_snapshot ''coordinator'',
                ''researcher'' \<mapsto> old_snapshot ''researcher''],
      loading = False, loadingAgents = False, backendOnline = False,
      chatMode = ''multi-agent'', forceAllAgents = False, selectedAgent = ''coordinator'',
      trace = []\<rparr>"

definition typed_state :: "int app_state" where
  "typed_state = blank_state\<lparr>input := '' hello ''\<rparr>"

definition chat_state :: "int app_state" where
  "chat_state = blank_state\<lparr>input := ''hi'', chatMode := ''simple''\<rparr>"

definition blank_input_state :: "int app_state" where
  "blank_input_state = blank_state\<lparr>input := [CHR 0x20, CHR 0x09]\<rparr>"

section \<open>Properties of the Request Gateway\<close>

lemma get_prop_total: "v \<noteq> Undefined \<Longrightarrow> v \<noteq> Null \<Longrightarrow> \<exists>w. get_prop v k = Inr w"
  by (cases v) simp_all

lemma get_prop_field: "v \<noteq> Undefined \<Longrightarrow> v \<noteq> Null \<Longrightarrow> get_prop v k = Inr (field v k)"
  by (cases v) (simp_all add: field_def)

lemma success_envelope_props:
  "get_prop (success_envelope d) ''success'' = Inr (Bool True)"
  "get_prop (success_envelope d) ''data'' = Inr d"
  "get_prop (success_envelope d) ''error'' = Inr Undefined"
  "get_prop (success_envelope d) ''status'' = Inr Undefined"
  "get_prop (success_envelope d) ''failure_count'' = Inr Undefined"
  by (simp_all add: success_envelope_def)

lemma failure_envelope_props:
  "get_prop (failure_envelope m) ''success'' = Inr (Bool False)"
  "get_prop (failure_envelope m) ''data'' = Inr Undefined"
  "get_prop (failure_envelope m) ''error'' = Inr (Str m)"
  "get_prop (failure_envelope m) ''status'' = Inr Undefined"
  "get_prop (failure_envelope m) ''failure_count'' = Inr Undefined"
  by (simp_all add: failure_envelope_def)

lemma try_block_returned:
  "try_block J r = Returned env t \<Longrightarrow> \<exists>data. env = success_envelope data"
  by (auto simp: try_block_def split: if_splits fetch_outcome.splits body_read.splits)

lemma apiFetch_cases:
  obtains (ok) r d where "apiFetch J net endpoint opts = Inr r" and "envelope r = success_envelope d"
  | (failed) r m where "apiFetch J net endpoint opts = Inr r" and "envelope r = failure_envelope m"
      and "toasts r = [ToastError m]"
proof (cases "try_block J (net endpoint opts)")
  case (Returned env t)
  then obtain d where "env = success_envelope d"
    using try_block_returned by blast
  with Returned have "apiFetch J net endpoint opts =
      Inr \<lparr>envelope = success_envelope d, resolved_ms = t, aborted = False, toasts = []\<rparr>"
    by (simp add: apiFetch_def)
  then show ?thesis
    by (rule ok) simp
next
  case (Threw error t ab)
  then have "apiFetch J net endpoint opts =
      Inr \<lparr>envelope = failure_envelope (catch_message error), resolved_ms = t,
           aborted = ab, toasts = [ToastError (catch_message error)]\<rparr>"
    by (simp add: apiFetch_def)
  then show ?thesis
    by (rule failed) simp_all
qed

text \<open>
  C4. Whatever the endpoint, the options and the network's reply (a response of any
  status with any body, a rejected \<^verbatim>\<open>fetch\<close>, no reply before the timeout), the call
  does not throw: it resolves to a result whose envelope is \<^verbatim>\<open>{success: true, data}\<close> or
  \<^verbatim>\<open>{success: false, error}\<close>, the failure also shown as an error toast.
\<close>

theorem gateway_always_envelope:
  "\<exists>r. apiFetch J net endpoint opts = Inr r \<and>
       ((\<exists>data. envelope r = success_envelope data) \<or>
        (\<exists>errorMsg. envelope r = failure_envelope errorMsg \<and> toasts r = [ToastError errorMsg]))"
  by (cases rule: apiFetch_cases [of J net endpoint opts]) auto

text \<open>An instance: the refused circuit call of the scenario.\<close>

theorem gateway_always_envelope_witness:
  "\<exists>r. apiFetch int_engine scenario_net ''/api/agents/researcher/circuit'' get_options = Inr r \<and>
       ((\<exists>data. envelope r = success_envelope data) \<or>
        (\<exists>errorMsg. envelope r = failure_envelope errorMsg \<and> toasts r = [ToastError errorMsg]))"
  by (rule gateway_always_envelope)

text \<open>The only error a conversion to a string throws.\<close>

lemma collect_error: "collect ms = Inl e \<Longrightarrow> Inl e \<in> set ms"
proof (induction ms)
  case Nil
  then show ?case by simp
next
  case (Cons m ms)
  show ?case
  proof (cases m)
    case (Inl e')
    with Cons.prems show ?thesis by (simp add: bind_exn_def)
  next
    case (Inr x)
    with Cons.prems have "collect ms = Inl e"
      by (cases "collect ms") (simp_all add: bind_exn_def)
    with Cons.IH show ?thesis by simp
  qed
qed

lemma to_string_error: "to_string J v = Inl e \<Longrightarrow> e = no_primitive"
proof (induction v arbitrary: e)
  case (Arr xs)
  let ?f = "\<lambda>x. case x of Undefined \<Rightarrow> Inr [] | Null \<Rightarrow> Inr [] | _ \<Rightarrow> to_string J x"
  from Arr.prems have "collect (map ?f xs) = Inl e"
    by (cases "collect (map ?f xs)") (simp_all add: bind_exn_def)
  then have "Inl e \<in> set (map ?f xs)"
    by (rule collect_error)
  then obtain x where x: "x \<in> set xs" and fx: "?f x = Inl e"
    by auto
  from fx have "to_string J x = Inl e"
    by (cases x) simp_all
  with x Arr.IH show ?case
    by blast
next
  case (Obj kvs)
  then show ?case
    by (simp split: if_splits)
qed simp_all

lemma status_error_cases:
  "status_error J status v = no_primitive \<or> (\<exists>m. status_message J status v = Inr m \<and>
     status_error J status v = JsError ''Error'' m)"
  by (cases "status_message J status v")
    (auto simp: status_error_def status_message_def bind_exn_def
      dest: to_string_error split: if_splits sum.splits)

lemma timeout_not_status:
  "timeout_message \<noteq> catch_message (status_error J status v)"
proof -
  have "timeout_message \<noteq> catch_message no_primitive"
    by (simp add: catch_message_def no_primitive_def timeout_message_def)
  moreover have "timeout_message \<noteq> catch_message (JsError ''Error'' m)"
    if "status_message J status v = Inr m" for m
    using that
    by (auto simp: catch_message_def status_message_def bind_exn_def timeout_message_def
        unreachable_message_def not_found_message_def rate_limit_message_def
        server_error_message_def split: if_splits sum.splits)
  ultimately show ?thesis
    using status_error_cases [of J status v] by auto
qed

text \<open>
  C5, amended. When the promise of \<^verbatim>\<open>fetch\<close> has not settled as the timeout of 10000 ms
  elapses, the request is aborted at that moment and the call resolves to the failure
  envelope with the timeout message. That message is not the one for an unreachable
  backend, and no error status leads to it.
\<close>

theorem timeout_classified:
  assumes "TIMEOUT_MS < fetch_ms (net endpoint opts)"
  shows "apiFetch J net endpoint opts =
           Inr \<lparr>envelope = failure_envelope timeout_message, resolved_ms = TIMEOUT_MS,
                aborted = True, toasts = [ToastError timeout_message]\<rparr>
         \<and> TIMEOUT_MS = 10000
         \<and> timeout_message \<noteq> unreachable_message
         \<and> (\<forall>status v. timeout_message \<noteq> catch_message (status_error J status v))"
proof -
  have "try_block J (net endpoint opts) = Threw abort_error TIMEOUT_MS True"
    using assms by (simp add: try_block_def)
  moreover have "catch_message abort_error = timeout_message"
    by (simp add: catch_message_def abort_error_def)
  ultimately have "apiFetch J net endpoint opts =
           Inr \<lparr>envelope = failure_envelope timeout_message, resolved_ms = TIMEOUT_MS,
                aborted = True, toasts = [ToastError timeout_message]\<rparr>"
    by (simp add: apiFetch_def)
  moreover have "timeout_message \<noteq> unreachable_message"
    by (simp add: timeout_message_def unreachable_message_def)
  moreover have "TIMEOUT_MS = 10000"
    by (simp add: TIMEOUT_MS_def)
  ultimately show ?thesis
    using timeout_not_status by blast
qed

text \<open>An instance: a network that would answer only after a minute.\<close>

theorem timeout_classified_witness:
  "apiFetch int_engine (\<lambda>endpoint opts. never_replies) ''/api/query'' get_options =
     Inr \<lparr>envelope = failure_envelope timeout_message, resolved_ms = 10000,
          aborted = True, toasts = [ToastError timeout_message]\<rparr>"
  using timeout_classified [of "\<lambda>endpoint opts. never_replies" "''/api/query''" get_options int_engine]
  by (simp add: never_replies_def TIMEOUT_MS_def)

text \<open>
  The claim as worded fails once the response has begun: the timer is cleared when
  \<^verbatim>\<open>fetch\<close> resolves, so a body that takes 20 s to read makes the call resolve after
  20100 ms, with a success envelope and nothing aborted.
\<close>

theorem slow_body_counterexample:
  "apiFetch int_engine (\<lambda>endpoint opts. slow_body_reply) ''/api/query'' get_options =
     Inr \<lparr>envelope = success_envelope (Obj []), resolved_ms = 20100, aborted = False, toasts = []\<rparr>
   \<and> TIMEOUT_MS < 20100"
  by (simp add: apiFetch_def try_block_def slow_body_reply_def TIMEOUT_MS_def response_ok_def)

lemma parse_error_message_value: "parse_error_message J b = body_error_value J b"
proof (cases b)
  case (BodyError e)
  then show ?thesis
    by (simp add: parse_error_message_def body_error_value_def field_value_def)
next
  case (BodyValue errorData)
  show ?thesis
  proof (cases "errorData = Undefined \<or> errorData = Null")
    case True
    with BodyValue show ?thesis
      by (auto simp: parse_error_message_def body_error_value_def field_value_def)
  next
    case False
    then obtain d m where "get_prop errorData ''detail'' = Inr d"
        and "get_prop errorData ''message'' = Inr m"
      using get_prop_total by blast
    with BodyValue show ?thesis
      by (simp add: parse_error_message_def body_error_value_def field_value_def js_or_def)
  qed
qed

lemma fixed_messages_plain:
  "catch_message (JsError ''Error'' not_found_message) = not_found_message"
  "catch_message (JsError ''Error'' rate_limit_message) = rate_limit_message"
  "catch_message (JsError ''Error'' server_error_message) = server_error_message"
  by (simp_all add: catch_message_def not_found_message_def rate_limit_message_def
      server_error_message_def)

text \<open>
  C6, amended. For a response that arrives before the timeout with a status outside 200
  to 299, the status decides first: 404, 429 and 500, 502, 503 give their fixed messages
  whatever the body holds. For any other status that is not a 5xx, take the body's
  truthy \<^verbatim>\<open>detail\<close>, else its truthy \<^verbatim>\<open>message\<close>, else the default text (also when the body
  does not parse): when that value converts to a string, the message is \<^verbatim>\<open>Error: \<close>
  followed by the string, as long as the message names no network failure.
\<close>

theorem http_error_message:
  assumes in_time: "fetch_ms (net endpoint opts) < TIMEOUT_MS"
      and resp: "outcome (net endpoint opts) = FetchResponse status b"
      and bad: "\<not> response_ok status"
  shows "\<exists>msg. apiFetch J net endpoint opts =
            Inr \<lparr>envelope = failure_envelope msg,
                 resolved_ms = fetch_ms (net endpoint opts) + body_ms (net endpoint opts),
                 aborted = False, toasts = [ToastError msg]\<rparr>
          \<and> (status = 404 \<longrightarrow> msg = not_found_message)
          \<and> (status = 429 \<longrightarrow> msg = rate_limit_message)
          \<and> (status \<in> {500, 502, 503} \<longrightarrow> msg = server_error_message)
          \<and> (\<forall>printed. status \<notin> {404, 429} \<and> \<not> (500 \<le> status \<and> status \<le> 599)
               \<and> to_string J (body_error_value J b) = Inr printed
               \<and> \<not> names_network (''Error: '' @ printed)
               \<longrightarrow> msg = ''Error: '' @ printed)"
proof -
  let ?e = "status_error J status (parse_error_message J b)"
  have tb: "try_block J (net endpoint opts) =
      Threw ?e (fetch_ms (net endpoint opts) + body_ms (net endpoint opts)) False"
    using assms by (simp add: try_block_def)
  have a: "status = 404 \<Longrightarrow> catch_message ?e = not_found_message"
    by (simp add: status_error_def status_message_def fixed_messages_plain)
  have b: "status = 429 \<Longrightarrow> catch_message ?e = rate_limit_message"
    by (simp add: status_error_def status_message_def fixed_messages_plain)
  have c: "status \<in> {500, 502, 503} \<Longrightarrow> catch_message ?e = server_error_message"
    by (auto simp add: status_error_def status_message_def fixed_messages_plain)
  have d: "status \<notin> {404, 429} \<Longrightarrow> \<not> (500 \<le> status \<and> status \<le> 599)
      \<Longrightarrow> to_string J (body_error_value J b) = Inr printed
      \<Longrightarrow> \<not> names_network (''Error: '' @ printed)
      \<Longrightarrow> catch_message ?e = ''Error: '' @ printed" for printed
    by (auto simp add: status_error_def status_message_def bind_exn_def catch_message_def
        names_network_def parse_error_message_value)
  have "apiFetch J net endpoint opts =
      Inr \<lparr>envelope = failure_envelope (catch_message ?e),
           resolved_ms = fetch_ms (net endpoint opts) + body_ms (net endpoint opts),
           aborted = False, toasts = [ToastError (catch_message ?e)]\<rparr>"
    by (simp add: apiFetch_def tb)
  with a b c d show ?thesis by blast
qed

text \<open>An instance: a 422 whose body carries a \<^verbatim>\<open>detail\<close>.\<close>

theorem http_error_message_witness:
  "apiFetch int_engine (\<lambda>endpoint opts. unprocessable_reply) ''/api/query'' get_options =
     Inr \<lparr>envelope = failure_envelope ''Error: Bad input'', resolved_ms = 42,
          aborted = False, toasts = [ToastError ''Error: Bad input'']\<rparr>"
  using http_error_message [of "\<lambda>endpoint opts. unprocessable_reply" "''/api/query''" get_options
      422 "BodyValue (Obj [(''detail'', Str ''Bad input'')])" int_engine]
  by (simp add: unprocessable_reply_def TIMEOUT_MS_def response_ok_def names_network_def
      body_error_value_def field_value_def)

text \<open>
  The claim as worded fails on a 404 whose body carries a \<^verbatim>\<open>detail\<close>: the field is
  present and parses, and the message is the fixed one for 404.
\<close>

theorem detail_overridden_counterexample:
  "field_value int_engine (BodyValue (Obj [(''detail'', Str ''Agent not found'')])) ''detail''
     = Some (Str ''Agent not found'')
   \<and> apiFetch int_engine (\<lambda>endpoint opts. not_found_reply) ''/api/agents/ghost/cost'' get_options =
     Inr \<lparr>envelope = failure_envelope ''Resource not found (404)'', resolved_ms = 42,
          aborted = False, toasts = [ToastError ''Resource not found (404)'']\<rparr>"
  by (simp add: field_value_def apiFetch_def try_block_def not_found_reply_def TIMEOUT_MS_def
      response_ok_def status_error_def status_message_def not_found_message_def
      catch_message_def)

text \<open>
  Where the value does not convert, the template literal throws and the message is the
  one of that error: a 400 whose \<^verbatim>\<open>detail\<close> is an object with a \<^verbatim>\<open>toString\<close> key.
\<close>

lemma keyed_detail_message:
  "apiFetch int_engine (\<lambda>endpoint opts. keyed_detail_reply) ''/api/query'' get_options =
     Inr \<lparr>envelope = failure_envelope ''Cannot convert object to primitive value'',
          resolved_ms = 42, aborted = False,
          toasts = [ToastError ''Cannot convert object to primitive value'']\<rparr>"
  by (simp add: apiFetch_def try_block_def keyed_detail_reply_def TIMEOUT_MS_def response_ok_def
      status_error_def status_message_def parse_error_message_def bind_exn_def
      no_primitive_def catch_message_def)

section \<open>Properties of the Status Aggregator\<close>

text \<open>The snapshot literal, by the two payloads.\<close>

lemma agent_snapshot_eq:
  "agent_snapshot J agentId (success_envelope ds) (success_envelope dc) =
     (if ds = Undefined \<or> ds = Null then Inl null_read
      else (case to_string J (field ds ''budget_limit_usd'') of
              Inl error \<Rightarrow> Inl error
            | Inr s \<Rightarrow>
                if dc = Undefined \<or> dc = Null then Inl null_read
                else Inr (Obj [(''name'', Str agentId), (''circuitStatus'', field ds ''status''),
                               (''budgetLimit'', Num (parse_number J s)),
                               (''cost'', field dc ''total_cost_usd'')])))"
proof (cases "ds = Undefined \<or> ds = Null")
  case True
  then show ?thesis
    by (auto simp: agent_snapshot_def bind_exn_def success_envelope_props)
next
  case False
  note ds = this
  show ?thesis
  proof (cases "to_string J (field ds ''budget_limit_usd'')")
    case (Inl error)
    with ds show ?thesis
      by (simp add: agent_snapshot_def bind_exn_def success_envelope_props get_prop_field
          parseFloat_def)
  next
    case (Inr s)
    show ?thesis
    proof (cases "dc = Undefined \<or> dc = Null")
      case True
      with ds Inr show ?thesis
        by (auto simp: agent_snapshot_def bind_exn_def success_envelope_props get_prop_field
            parseFloat_def)
    next
      case False
      with ds Inr show ?thesis
        by (simp add: agent_snapshot_def bind_exn_def success_envelope_props get_prop_field
            parseFloat_def)
    qed
  qed
qed

text \<open>One round of the loop, by what the two calls of the agent resolved to.\<close>

lemma poll_pair_cases:
  "pair_usable J net agentId \<Longrightarrow> poll_pair J net agentId = Inr (Some (fresh_snapshot J net agentId))"
  "pair_succeeds J net agentId \<Longrightarrow> \<not> pair_usable J net agentId \<Longrightarrow>
     \<exists>error. poll_pair J net agentId = Inl error"
  "\<not> pair_succeeds J net agentId \<Longrightarrow> poll_pair J net agentId = Inr None"
proof -
  let ?s = "getAgentStatus J net agentId" and ?c = "getAgentCost J net agentId"
  have "(pair_usable J net agentId \<longrightarrow>
           poll_pair J net agentId = Inr (Some (fresh_snapshot J net agentId)))
      \<and> (pair_succeeds J net agentId \<and> \<not> pair_usable J net agentId \<longrightarrow>
           (\<exists>error. poll_pair J net agentId = Inl error))
      \<and> (\<not> pair_succeeds J net agentId \<longrightarrow> poll_pair J net agentId = Inr None)"
  proof (cases rule: apiFetch_cases [of J net "circuit_endpoint agentId" get_options])
    case (failed rs m)
    moreover obtain rc where "?c = Inr rc"
      unfolding getAgentCost_def
      by (cases rule: apiFetch_cases [of J net "cost_endpoint agentId" get_options]) auto
    ultimately show ?thesis
      by (simp add: poll_pair_def promise_pair_def bind_exn_def getAgentStatus_def
          pair_usable_def pair_succeeds_def succeeded_def failure_envelope_props)
  next
    case (ok rs ds)
    note s = this
    show ?thesis
    proof (cases rule: apiFetch_cases [of J net "cost_endpoint agentId" get_options])
      case (failed rc m)
      with s show ?thesis
        by (simp add: poll_pair_def promise_pair_def bind_exn_def getAgentStatus_def
            getAgentCost_def pair_usable_def pair_succeeds_def succeeded_def
            failure_envelope_props success_envelope_props)
    next
      case (ok rc dc)
      have both: "pair_succeeds J net agentId"
        using s ok by (simp add: pair_succeeds_def succeeded_def getAgentStatus_def
            getAgentCost_def success_envelope_props)
      have ps: "payload ?s = ds" and pc: "payload ?c = dc"
        using s ok by (simp_all add: payload_def field_def getAgentStatus_def getAgentCost_def
            success_envelope_props)
      have poll: "poll_pair J net agentId =
          bind_exn (agent_snapshot J agentId (success_envelope ds) (success_envelope dc))
            (\<lambda>snapshot. Inr (Some snapshot))"
        using s ok
        by (simp add: poll_pair_def promise_pair_def bind_exn_def getAgentStatus_def
            getAgentCost_def success_envelope_props)
      show ?thesis
      proof (cases "pair_usable J net agentId")
        case True
        then obtain printed where
          "to_string J (field ds ''budget_limit_usd'') = Inr printed"
          and "ds \<noteq> Undefined" "ds \<noteq> Null" "dc \<noteq> Undefined" "dc \<noteq> Null"
          using ps pc
          by (auto simp: pair_usable_def has_payload_def printable_def budget_limit_def
              split: sum.splits)
        then have "agent_snapshot J agentId (success_envelope ds) (success_envelope dc) =
            Inr (fresh_snapshot J net agentId)"
          using ps pc
          by (simp add: agent_snapshot_eq fresh_snapshot_def budget_limit_def text_of_def)
        with True both show ?thesis
          by (simp add: poll bind_exn_def)
      next
        case False
        then have "(ds = Undefined \<or> ds = Null) \<or> (dc = Undefined \<or> dc = Null)
            \<or> (\<exists>error. to_string J (field ds ''budget_limit_usd'') = Inl error)"
          using both ps pc
          by (auto simp: pair_usable_def has_payload_def printable_def budget_limit_def
              split: sum.splits)
        then have "\<exists>error. agent_snapshot J agentId (success_envelope ds) (success_envelope dc)
            = Inl error"
          by (auto simp: agent_snapshot_eq split: sum.splits)
        with False both show ?thesis
          by (auto simp: poll bind_exn_def)
      qed
    qed
  qed
  then show
    "pair_usable J net agentId \<Longrightarrow> poll_pair J net agentId = Inr (Some (fresh_snapshot J net agentId))"
    "pair_succeeds J net agentId \<Longrightarrow> \<not> pair_usable J net agentId \<Longrightarrow>
       \<exists>error. poll_pair J net agentId = Inl error"
    "\<not> pair_succeeds J net agentId \<Longrightarrow> poll_pair J net agentId = Inr None"
    by blast+
qed

lemma usable_succeeds: "pair_usable J net agentId \<Longrightarrow> pair_succeeds J net agentId"
  by (simp add: pair_usable_def)

lemma fresh_entries_Cons:
  "m(a \<mapsto> fresh_snapshot J net a) ++ fresh_entries J net ids
     = m ++ fresh_entries J net (a # ids)" if "pair_usable J net a" and "a \<noteq> ''__proto__''"
proof (rule ext)
  fix x
  show "(m(a \<mapsto> fresh_snapshot J net a) ++ fresh_entries J net ids) x
      = (m ++ fresh_entries J net (a # ids)) x"
    using that by (auto simp: fresh_entries_def map_add_def split: option.splits)
qed

lemma fresh_entries_skip:
  "\<not> pair_usable J net a \<or> a = ''__proto__'' \<Longrightarrow>
     fresh_entries J net (a # ids) = fresh_entries J net ids"
  by (auto simp: fresh_entries_def fun_eq_iff)

text \<open>The loop, from any values of its three variables.\<close>

lemma refresh_loop_eq:
  "refresh_loop J net ids (m, n, tr) =
     (m ++ fresh_entries J net ids, n + length (filter (pair_usable J net) ids),
      tr @ concat (map (pair_events J net) ids))"
proof (induction ids arbitrary: m n tr)
  case Nil
  then show ?case by (simp add: fresh_entries_def)
next
  case (Cons a ids)
  show ?case
  proof (cases "pair_usable J net a")
    case True
    show ?thesis
    proof (cases "a = ''__proto__''")
      case stored: False
      with True show ?thesis
        by (simp add: poll_pair_cases(1) Cons.IH fresh_entries_Cons [unfolded fun_upd_def]
            pair_events_def)
    next
      case kept: True
      then have "fresh_entries J net (a # ids) = fresh_entries J net ids"
        by (simp add: fresh_entries_skip)
      with True kept show ?thesis
        by (simp add: poll_pair_cases(1) Cons.IH pair_events_def)
    qed
  next
    case False
    show ?thesis
    proof (cases "pair_succeeds J net a")
      case True
      with False obtain error where "poll_pair J net a = Inl error"
        using poll_pair_cases(2) by blast
      with True False show ?thesis
        by (simp add: Cons.IH fresh_entries_skip pair_events_def)
    next
      case no: False
      with False show ?thesis
        by (simp add: poll_pair_cases(3) Cons.IH fresh_entries_skip pair_events_def)
    qed
  qed
qed

lemma refreshAgentData_eq:
  "refreshAgentData J net ids st =
     st\<lparr>agents := agents st ++ fresh_entries J net ids,
        backendOnline := (1 \<le> length (filter (pair_usable J net) ids)),
        loadingAgents := False,
        trace := trace st
          @ (if agents st = Map.empty then [Setter ''setLoadingAgents''] else [])
          @ concat (map (pair_events J net) ids)
          @ (if 1 \<le> length (filter (pair_usable J net) ids)
             then [Setter ''setAgents'', Setter ''setBackendOnline'']
             else [Setter ''setBackendOnline''])
          @ [Setter ''setLoadingAgents'']\<rparr>"
proof (cases "filter (pair_usable J net) ids = []")
  case True
  then have "fresh_entries J net ids = Map.empty"
    by (auto simp: fresh_entries_def filter_empty_conv fun_eq_iff)
  with True show ?thesis
    by (simp add: refreshAgentData_def refresh_loop_eq Let_def)
next
  case False
  then have "0 < length (filter (pair_usable J net) ids)" by simp
  then show ?thesis
    by (simp add: refreshAgentData_def refresh_loop_eq Let_def Suc_le_eq)
qed

text \<open>The example engine reads the budget limit of the example replies as 10.\<close>

lemma ten_read: "parse_number int_engine ''10.00'' = 10"
  by (simp add: int_engine_def whole_number_def)

text \<open>The example networks, pair by pair.\<close>

lemmas gateway_eval =
  getAgentStatus_def getAgentCost_def apiFetch_def try_block_def catch_message_def
  TIMEOUT_MS_def response_ok_def success_envelope_def failure_envelope_def
  circuit_endpoint_def cost_endpoint_def is_cost_endpoint_def AGENT_IDS_def get_options_def
  circuit_reply_def cost_reply_def null_reply_def refused_reply_def unreachable_message_def
  keyed_limit_reply_def

lemmas pair_eval =
  pair_usable_def pair_succeeds_def succeeded_def has_payload_def payload_def field_def
  printable_def budget_limit_def

lemma scenario_pairs:
  "pair_usable int_engine scenario_net ''coordinator''"
  "\<not> pair_usable int_engine scenario_net ''researcher''"
  "pair_usable int_engine scenario_net ''coder''"
  "\<not> pair_succeeds int_engine scenario_net ''researcher''"
  by (simp_all add: pair_eval gateway_eval scenario_net_def)

lemma null_cost_pairs:
  "pair_succeeds int_engine null_cost_net ''coordinator''"
  "pair_succeeds int_engine null_cost_net ''researcher''"
  "pair_succeeds int_engine null_cost_net ''coder''"
  "\<not> pair_usable int_engine null_cost_net ''coordinator''"
  "\<not> pair_usable int_engine null_cost_net ''researcher''"
  "\<not> pair_usable int_engine null_cost_net ''coder''"
  by (simp_all add: pair_eval gateway_eval null_cost_net_def)

lemma lone_null_pairs:
  "pair_succeeds int_engine lone_null_net ''coordinator''"
  "\<not> pair_usable int_engine lone_null_net ''coordinator''"
  "\<not> pair_usable int_engine lone_null_net ''researcher''"
  "\<not> pair_usable int_engine lone_null_net ''coder''"
  by (simp_all add: pair_eval gateway_eval lone_null_net_def)

lemma keyed_limit_pairs:
  "pair_succeeds int_engine keyed_limit_net ''coordinator''"
  "has_payload (getAgentStatus int_engine keyed_limit_net ''coordinator'')"
  "has_payload (getAgentCost int_engine keyed_limit_net ''coordinator'')"
  "\<not> pair_usable int_engine keyed_limit_net ''coordinator''"
  "\<not> pair_usable int_engine keyed_limit_net ''researcher''"
  "\<not> pair_usable int_engine keyed_limit_net ''coder''"
  "\<not> pair_succeeds int_engine keyed_limit_net ''researcher''"
  "\<not> pair_succeeds int_engine keyed_limit_net ''coder''"
  by (simp_all add: pair_eval gateway_eval keyed_limit_net_def no_primitive_def)

text \<open>
  A budget limit that does not convert: both calls of \<^verbatim>\<open>coordinator\<close> succeed with a
  payload, \<^verbatim>\<open>parseFloat\<close> throws, the round logs the error, nothing is published and the
  backend is found offline.
\<close>

lemma keyed_limit_offline:
  "\<not> backendOnline (refreshAgentData int_engine keyed_limit_net AGENT_IDS blank_state)"
  "dom (agents (refreshAgentData int_engine keyed_limit_net AGENT_IDS blank_state)) = {}"
  "trace (refreshAgentData int_engine keyed_limit_net [''coordinator''] blank_state) =
     [Setter ''setLoadingAgents'',
      Issued ''/api/agents/coordinator/circuit'', Issued ''/api/agents/coordinator/cost'',
      Resumed [''/api/agents/coordinator/circuit'', ''/api/agents/coordinator/cost''],
      ConsoleError ''Error processing data for coordinator'',
      Setter ''setBackendOnline'', Setter ''setLoadingAgents'']"
  by (auto simp: refreshAgentData_eq fresh_entries_def pair_events_def keyed_limit_pairs
      AGENT_IDS_def blank_state_def dom_def circuit_endpoint_def cost_endpoint_def)

text \<open>
  C1, amended. Take a refresh over N distinct identities, none of them the key
  \<^verbatim>\<open>__proto__\<close>, of which exactly K are usable: both calls succeed with a payload
  (neither \<^verbatim>\<open>null\<close> nor \<^verbatim>\<open>undefined\<close>) and the budget limit reported converts to a
  string. Then K identities are usable and N - K are not,
  and the resulting map holds, for each usable identity, the snapshot built from this
  cycle's two payloads, and for every other key what it held before: the fresh entries
  are laid over the previous map.
\<close>

theorem refresh_overlays_usable_pairs:
  assumes "distinct ids" and "''__proto__'' \<notin> set ids"
      and "length (filter (pair_usable J net) ids) = K"
  shows "card {a \<in> set ids. pair_usable J net a} = K
       \<and> card {a \<in> set ids. \<not> pair_usable J net a} = length ids - K
       \<and> (\<forall>a. agents (refreshAgentData J net ids st) a =
                (if a \<in> set ids \<and> pair_usable J net a then Some (fresh_snapshot J net a)
                 else agents st a))"
proof -
  have k: "card {a \<in> set ids. pair_usable J net a} = K"
    using assms distinct_card [of "filter (pair_usable J net) ids"] by simp
  have "card {a \<in> set ids. \<not> pair_usable J net a} = length (filter (\<lambda>a. \<not> pair_usable J net a) ids)"
    using assms distinct_card [of "filter (\<lambda>a. \<not> pair_usable J net a) ids"] by simp
  also have "\<dots> = length ids - K"
    using assms sum_length_filter_compl [of "pair_usable J net" ids] by simp
  finally have nk: "card {a \<in> set ids. \<not> pair_usable J net a} = length ids - K" .
  have "agents (refreshAgentData J net ids st) a =
          (if a \<in> set ids \<and> pair_usable J net a then Some (fresh_snapshot J net a)
           else agents st a)" for a
    using assms(2) by (auto simp: refreshAgentData_eq fresh_entries_def map_add_def)
  with k nk show ?thesis by blast
qed

text \<open>
  An instance, the scenario of the three agents run on a state with older snapshots:
  \<^verbatim>\<open>coordinator\<close> has its snapshot replaced, \<^verbatim>\<open>researcher\<close>, whose circuit call was refused,
  keeps the old one, \<^verbatim>\<open>coder\<close> gets its first, and two identities are usable.
\<close>

theorem refresh_overlays_usable_pairs_witness:
  "agents (refreshAgentData int_engine scenario_net AGENT_IDS stale_state) ''coordinator'' =
     Some (Obj [(''name'', Str ''coordinator''), (''circuitStatus'', Str ''closed''),
                (''budgetLimit'', Num 10), (''cost'', Str ''0.25'')])
   \<and> agents (refreshAgentData int_engine scenario_net AGENT_IDS stale_state) ''researcher'' =
     Some (Obj [(''name'', Str ''researcher''), (''circuitStatus'', Str ''open''),
                (''budgetLimit'', Num 5), (''cost'', Str ''0.10'')])
   \<and> agents (refreshAgentData int_engine scenario_net AGENT_IDS stale_state) ''coder'' =
     Some (Obj [(''name'', Str ''coder''), (''circuitStatus'', Str ''closed''),
                (''budgetLimit'', Num 10), (''cost'', Str ''0.25'')])
   \<and> card {a \<in> set AGENT_IDS. pair_usable int_engine scenario_net a} = 2"
proof -
  have d: "distinct AGENT_IDS" and p: "''__proto__'' \<notin> set AGENT_IDS"
    by (simp_all add: AGENT_IDS_def)
  have k: "length (filter (pair_usable int_engine scenario_net) AGENT_IDS) = 2"
    by (simp add: AGENT_IDS_def scenario_pairs)
  have fresh: "fresh_snapshot int_engine scenario_net a =
      Obj [(''name'', Str a), (''circuitStatus'', Str ''closed''),
           (''budgetLimit'', Num 10), (''cost'', Str ''0.25'')]"
    if "a = ''coordinator'' \<or> a = ''coder''" for a
    using that
    by (auto simp: fresh_snapshot_def budget_limit_def text_of_def payload_def field_def
        gateway_eval scenario_net_def ten_read)
  show ?thesis
    using refresh_overlays_usable_pairs [OF d p k, of stale_state]
    by (simp add: scenario_pairs fresh AGENT_IDS_def stale_state_def old_snapshot_def)
qed

text \<open>
  The claim as worded counts the identities whose two calls succeed. When every cost
  call is answered with \<^verbatim>\<open>null\<close>, all three identities have both calls succeed, reading
  \<^verbatim>\<open>costRes.data.total_cost_usd\<close> throws in each round, and the map stays empty.
\<close>

theorem null_payload_counterexample:
  "length (filter (pair_succeeds int_engine null_cost_net) AGENT_IDS) = 3
   \<and> dom (agents (refreshAgentData int_engine null_cost_net AGENT_IDS blank_state)) = {}"
  by (auto simp: refreshAgentData_eq fresh_entries_def null_cost_pairs AGENT_IDS_def
      blank_state_def dom_def)

text \<open>
  C2, amended. After a refresh over any list of identities, \<^verbatim>\<open>backendOnline\<close> is true
  exactly when at least one identity is usable (both calls succeed with a payload and
  the budget limit reported converts to a string), and false otherwise.
\<close>

theorem verdict_counts_usable_pairs:
  "backendOnline (refreshAgentData J net ids st) = (1 \<le> length (filter (pair_usable J net) ids))"
proof -
  let ?K = "length (filter (pair_usable J net) ids)"
  have "backendOnline (refreshAgentData J net ids st) = (0 < ?K)"
    by (simp add: refreshAgentData_def refresh_loop_eq Let_def)
  then show ?thesis
    by (simp add: Suc_le_eq)
qed

text \<open>
  Two instances: the scenario brings a backend found offline back online, and with no
  usable identity (the budget limit of the only answered agent does not convert) the
  verdict is false.
\<close>

theorem verdict_counts_usable_pairs_witness:
  "\<not> backendOnline stale_state
   \<and> backendOnline (refreshAgentData int_engine scenario_net AGENT_IDS stale_state)
   \<and> \<not> backendOnline (refreshAgentData int_engine keyed_limit_net AGENT_IDS blank_state)"
  using verdict_counts_usable_pairs [of int_engine scenario_net AGENT_IDS stale_state]
    verdict_counts_usable_pairs [of int_engine keyed_limit_net AGENT_IDS blank_state]
  by (simp add: AGENT_IDS_def scenario_pairs keyed_limit_pairs stale_state_def)

text \<open>
  The claim as worded fails when the one identity whose two calls succeed has its cost
  call answered with \<^verbatim>\<open>null\<close>: the count of successful pairs is 1 and the verdict is
  false.
\<close>

theorem verdict_offline_counterexample:
  "1 \<le> length (filter (pair_succeeds int_engine lone_null_net) AGENT_IDS)
   \<and> \<not> backendOnline (refreshAgentData int_engine lone_null_net AGENT_IDS blank_state)"
  by (simp add: refreshAgentData_eq lone_null_pairs AGENT_IDS_def)

text \<open>
  C3, amended. Within one refresh the two calls of an identity are issued together and
  awaited together; the pairs follow one another in the order of the list, each issued
  after the pair before it has settled; a round whose two calls succeeded but whose
  snapshot could not be built logs a console error; and the map is published by one
  \<^verbatim>\<open>setAgents\<close>, after the last pair has settled and only when some pair was usable. The
  trace of a refresh is exactly this sequence.
\<close>

theorem refresh_polls_in_sequence:
  "trace (refreshAgentData J net ids st) =
     trace st
     @ (if agents st = Map.empty then [Setter ''setLoadingAgents''] else [])
     @ concat (map (pair_events J net) ids)
     @ (if 1 \<le> length (filter (pair_usable J net) ids)
        then [Setter ''setAgents'', Setter ''setBackendOnline'']
        else [Setter ''setBackendOnline''])
     @ [Setter ''setLoadingAgents'']"
proof -
  let ?K = "length (filter (pair_usable J net) ids)"
  show ?thesis
  proof (cases "0 < ?K")
    case True
    then show ?thesis
      by (simp add: refreshAgentData_def refresh_loop_eq Let_def Suc_le_eq)
  next
    case False
    then show ?thesis
      by (simp add: refreshAgentData_def refresh_loop_eq Let_def)
  qed
qed

text \<open>
  Two instances over the three agents: the scenario run on the state with older
  snapshots, and the network whose only answered agent reports a budget limit that does
  not convert, run on the blank state.
\<close>

theorem refresh_polls_in_sequence_witness:
  "trace (refreshAgentData int_engine scenario_net AGENT_IDS stale_state) =
     [Issued ''/api/agents/coordinator/circuit'', Issued ''/api/agents/coordinator/cost'',
      Resumed [''/api/agents/coordinator/circuit'', ''/api/agents/coordinator/cost''],
      Issued ''/api/agents/researcher/circuit'', Issued ''/api/agents/researcher/cost'',
      Resumed [''/api/agents/researcher/circuit'', ''/api/agents/researcher/cost''],
      Issued ''/api/agents/coder/circuit'', Issued ''/api/agents/coder/cost'',
      Resumed [''/api/agents/coder/circuit'', ''/api/agents/coder/cost''],
      Setter ''setAgents'', Setter ''setBackendOnline'', Setter ''setLoadingAgents'']
   \<and> trace (refreshAgentData int_engine keyed_limit_net AGENT_IDS blank_state) =
     [Setter ''setLoadingAgents'',
      Issued ''/api/agents/coordinator/circuit'', Issued ''/api/agents/coordinator/cost'',
      Resumed [''/api/agents/coordinator/circuit'', ''/api/agents/coordinator/cost''],
      ConsoleError ''Error processing data for coordinator'',
      Issued ''/api/agents/researcher/circuit'', Issued ''/api/agents/researcher/cost'',
      Resumed [''/api/agents/researcher/circuit'', ''/api/agents/researcher/cost''],
      Issued ''/api/agents/coder/circuit'', Issued ''/api/agents/coder/cost'',
      Resumed [''/api/agents/coder/circuit'', ''/api/agents/coder/cost''],
      Setter ''setBackendOnline'', Setter ''setLoadingAgents'']"
  using refresh_polls_in_sequence [of int_engine scenario_net AGENT_IDS stale_state]
    refresh_polls_in_sequence [of int_engine keyed_limit_net AGENT_IDS blank_state]
  by (simp add: pair_events_def scenario_pairs keyed_limit_pairs usable_succeeds AGENT_IDS_def
      stale_state_def blank_state_def circuit_endpoint_def cost_endpoint_def)

text \<open>
  The claim as worded asks for a fan-out across identities. The refresh over the three
  agents is none: the calls of \<^verbatim>\<open>researcher\<close> are issued after the \<^verbatim>\<open>await\<close> on the pair
  of \<^verbatim>\<open>coordinator\<close> has resumed.
\<close>

theorem serial_polling_counterexample:
  "\<not> fanned_out (trace (refreshAgentData int_engine scenario_net AGENT_IDS blank_state))"
  by (simp add: refreshAgentData_eq pair_events_def scenario_pairs AGENT_IDS_def blank_state_def)

section \<open>Properties of the Conversation Dispatcher\<close>

subsection \<open>Trimming\<close>

lemma strip_one_Nil: "strip_one ws [] = None"
proof (induction ws)
  case Nil
  show ?case by simp
next
  case (Cons w ws)
  then show ?case by (cases w) simp_all
qed

lemma trim_lead_step:
  "strip_one ws s = None \<Longrightarrow> trim_lead ws s = s"
  "strip_one ws s = Some rest \<Longrightarrow> trim_lead ws s = trim_lead ws rest"
  by (subst trim_lead.simps, simp)+

lemma trim_lead_Nil: "trim_lead ws [] = []"
  by (simp add: trim_lead_step strip_one_Nil)

lemma strip_one_whitespace:
  assumes "w \<in> set js_whitespace"
  shows "strip_one js_whitespace (w @ rest) = Some rest"
proof -
  have "list_all (\<lambda>w. strip_one js_whitespace (w @ rest) = Some rest) js_whitespace"
    by (simp add: js_whitespace_def)
  with assms show ?thesis
    by (simp add: list_all_iff)
qed

lemma trim_lead_whitespace:
  "set ws \<subseteq> set js_whitespace \<Longrightarrow> trim_lead js_whitespace (concat ws) = []"
proof (induction ws)
  case Nil
  then show ?case by (simp add: trim_lead_Nil)
next
  case (Cons w ws)
  then have "strip_one js_whitespace (w @ concat ws) = Some (concat ws)"
    by (simp add: strip_one_whitespace)
  with Cons show ?case
    by (simp add: trim_lead_step)
qed

lemma trim_whitespace_only: "whitespace_only s \<Longrightarrow> trim s = []"
proof -
  assume "whitespace_only s"
  then have "trim_lead js_whitespace s = []"
    by (auto simp: whitespace_only_def trim_lead_whitespace)
  then show ?thesis
    by (simp add: trim_def trim_lead_Nil)
qed

lemma trim_hello: "trim '' hello '' = ''hello''"
  by (simp add: trim_def js_whitespace_def trim_lead_step)

lemma trim_hi: "trim ''hi'' = ''hi''"
  by (simp add: trim_def js_whitespace_def trim_lead_step)

subsection \<open>The call and the entry\<close>

lemma announced_envelope:
  assumes "call = Inr r" and "envelope r = success_envelope d \<or> envelope r = failure_envelope m"
  shows "\<exists>r'. announced J waiting call = Inr r' \<and> envelope r' = envelope r"
  using assms by (auto simp: announced_def bind_exn_def success_envelope_props failure_envelope_props)

lemma chat_call_cases:
  obtains (ok) r d where "chat_call J net st = Inr r" and "envelope r = success_envelope d"
  | (failed) r m where "chat_call J net st = Inr r" and "envelope r = failure_envelope m"
proof -
  have *: "(\<exists>r d. announced J waiting (apiFetch J net endpoint opts) = Inr r \<and> envelope r = success_envelope d)
      \<or> (\<exists>r m. announced J waiting (apiFetch J net endpoint opts) = Inr r \<and> envelope r = failure_envelope m)"
    for waiting endpoint and opts :: "'a options"
  proof (cases rule: apiFetch_cases [of J net endpoint opts])
    case (ok r d)
    then show ?thesis using announced_envelope [of _ r d] by metis
  next
    case (failed r m)
    then show ?thesis using announced_envelope [of _ r _ m] by metis
  qed
  show ?thesis
    using * ok failed unfolding chat_call_def sendQuery_def sendSimpleChat_def
    by (cases "chatMode st = ''simple''") (simp_all, blast+)
qed

lemma chat_call_status:
  "chat_call J net st = Inr r \<Longrightarrow> envelope r = success_envelope d \<Longrightarrow>
     succeeded (chat_call J net st) \<and> payload (chat_call J net st) = d"
  "chat_call J net st = Inr r \<Longrightarrow> envelope r = failure_envelope m \<Longrightarrow>
     \<not> succeeded (chat_call J net st)"
  by (simp_all add: succeeded_def payload_def field_def success_envelope_props
      failure_envelope_props)

lemma entry_of_payload:
  assumes "d \<noteq> Undefined" and "d \<noteq> Null"
  shows "simple_entry (success_envelope d) = Inr (simple_shape d)"
    and "query_entry (success_envelope d) = Inr (multi_agent_shape d)"
  using assms
  by (simp_all add: simple_entry_def query_entry_def bind_exn_def success_envelope_props
      get_prop_field simple_shape_def multi_agent_shape_def)

lemma entry_of_nothing:
  assumes "d = Undefined \<or> d = Null"
  shows "simple_entry (success_envelope d) = Inl null_read"
    and "query_entry (success_envelope d) = Inl null_read"
  using assms
  by (auto simp: simple_entry_def query_entry_def bind_exn_def success_envelope_props)

lemma error_entry_failure: "error_entry J (failure_envelope m) = Inr (error_shape m)"
  by (simp add: error_entry_def bind_exn_def failure_envelope_props js_or_def error_shape_def)

subsection \<open>The \<^verbatim>\<open>try\<close> block, case by case\<close>

lemma handleSend_unfold:
  "trim (input st) \<noteq> [] \<Longrightarrow>
   handleSend J net st =
     (let st2 = (case send_attempt J net (trim (input st)) (sending st) of
                   (None, st') \<Rightarrow> st'
                 | (Some error, st') \<Rightarrow> append_message critical_entry st')
      in st2\<lparr>loading := False, trace := trace st2 @ [Setter ''setLoading'']\<rparr>)"
proof -
  let ?st0 = "append_message (user_entry (trim (input st))) st"
  have "?st0\<lparr>input := [], loading := True,
             trace := trace ?st0 @ [Setter ''setInput'', Setter ''setLoading'']\<rparr> = sending st"
    by (cases st) (simp add: append_message_def sending_def)
  then show "trim (input st) \<noteq> [] \<Longrightarrow> ?thesis"
    by (simp add: handleSend_def Let_def)
qed

lemma delivered_state:
  "append_message msg
     ((sending st)\<lparr>trace := trace (sending st)
         @ [Issued (chat_endpoint st), Resumed [chat_endpoint st]]\<rparr>)
   = after_exchange st msg"
  by (cases st) (simp add: append_message_def sending_def after_exchange_def chat_endpoint_def)

lemma sending_fields:
  "chatMode (sending st) = chatMode st" "selectedAgent (sending st) = selectedAgent st"
  "forceAllAgents (sending st) = forceAllAgents st"
  by (simp_all add: sending_def)

lemma send_attempt_call:
  "send_attempt J net (trim (input st)) (sending st) =
     (case deliver J (chat_endpoint st) (chat_call J net st)
             (if chatMode st = ''simple'' then simple_entry else query_entry) (sending st) of
        (Inl error, st1) \<Rightarrow> (Some error, st1)
      | (Inr result, st1) \<Rightarrow>
          (case get_prop result ''success'' of
             Inl error \<Rightarrow> (Some error, st1)
           | Inr ok \<Rightarrow>
               if \<not> truthy J ok then
                 (case error_entry J result of
                    Inl error \<Rightarrow> (Some error, st1)
                  | Inr msg \<Rightarrow> (None, refreshAgentData J net AGENT_IDS (append_message msg st1)))
               else (None, refreshAgentData J net AGENT_IDS st1)))"
  by (simp add: send_attempt_def chat_endpoint_def chat_call_def sending_fields)

lemma send_attempt_failed:
  assumes "chat_call J net st = Inr r" and "envelope r = failure_envelope m"
  shows "send_attempt J net (trim (input st)) (sending st) =
           (None, refreshAgentData J net AGENT_IDS (after_exchange st (error_shape m)))"
  using assms
  by (simp add: send_attempt_call deliver_def Let_def failure_envelope_props error_entry_failure
      delivered_state)

lemma send_attempt_ok:
  assumes "chat_call J net st = Inr r" and "envelope r = success_envelope d"
      and "d \<noteq> Undefined" and "d \<noteq> Null"
  shows "send_attempt J net (trim (input st)) (sending st) =
           (None, refreshAgentData J net AGENT_IDS
              (after_exchange st (if chatMode st = ''simple'' then simple_shape d
                                  else multi_agent_shape d)))"
  using assms
  by (simp add: send_attempt_call deliver_def Let_def success_envelope_props entry_of_payload
      delivered_state)

lemma send_attempt_null:
  assumes "chat_call J net st = Inr r" and "envelope r = success_envelope d"
      and "d = Undefined \<or> d = Null"
  shows "send_attempt J net (trim (input st)) (sending st) =
           (Some null_read, (sending st)\<lparr>trace := trace (sending st)
                @ [Issued (chat_endpoint st), Resumed [chat_endpoint st]]\<rparr>)"
  using assms
  by (auto simp: send_attempt_call deliver_def Let_def success_envelope_props entry_of_nothing)

lemma refresh_keeps_messages: "messages (refreshAgentData J net ids st) = messages st"
  by (simp add: refreshAgentData_eq)

lemma issued_pair_events:
  "filter is_issued (concat (map (pair_events J net) ids)) =
     concat (map (\<lambda>a. [Issued (circuit_endpoint a), Issued (cost_endpoint a)]) ids)"
  by (induction ids) (simp_all add: pair_events_def)

lemma issued_refresh:
  "filter is_issued (trace (refreshAgentData J net ids st)) =
     filter is_issued (trace st)
     @ concat (map (\<lambda>a. [Issued (circuit_endpoint a), Issued (cost_endpoint a)]) ids)"
  by (simp add: refreshAgentData_eq issued_pair_events)

subsection \<open>The example exchanges\<close>

lemmas chat_eval =
  chat_call_def sendQuery_def sendSimpleChat_def announced_def bind_exn_def post_options_def
  apiFetch_def try_block_def TIMEOUT_MS_def response_ok_def success_envelope_def
  answering_net_def null_answer_net_def answer_reply_def null_reply_def
  typed_state_def chat_state_def blank_state_def trim_hello trim_hi

lemma answering_call:
  "succeeded (chat_call int_engine answering_net typed_state)"
  "has_payload (chat_call int_engine answering_net typed_state)"
  "payload (chat_call int_engine answering_net typed_state) =
     Obj [(''final_answer'', Str ''42''), (''total_cost'', Num 1),
          (''agents_used'', Arr [Str ''coder'']), (''routing_decision'', Str ''code task'')]"
  by (simp_all add: succeeded_def has_payload_def payload_def field_def chat_eval)

lemma null_answer_query:
  "chat_call int_engine null_answer_net typed_state =
     Inr \<lparr>envelope = success_envelope Null, resolved_ms = 31, aborted = False,
          toasts = [ToastLoading ''Processing query...'', ToastDismiss,
                    ToastSuccess ''Response received!'']\<rparr>"
  by (simp add: chat_eval)

lemma null_answer_chat:
  "chat_call int_engine null_answer_net chat_state =
     Inr \<lparr>envelope = success_envelope Null, resolved_ms = 31, aborted = False,
          toasts = [ToastLoading ''Sending message...'', ToastDismiss,
                    ToastSuccess ''Response received!'']\<rparr>"
  by (simp add: chat_eval)

subsection \<open>The exchange as a whole\<close>

text \<open>
  C7, amended. Take a send whose trimmed text is not empty and whose call fails, or
  succeeds with a payload (neither \<^verbatim>\<open>null\<close> nor \<^verbatim>\<open>undefined\<close>). Then \<^verbatim>\<open>handleSend\<close> is one
  refresh over \<open>AGENT_IDS\<close>, run in the state in which the user entry and the assistant
  entry have been appended, followed by the reset of the loading flag; the calls it
  issues are the chat call and then one circuit and one cost call per agent.
\<close>

theorem send_refreshes_once_after_entry:
  assumes "trim (input st) \<noteq> []"
      and "succeeded (chat_call J net st) \<longrightarrow> has_payload (chat_call J net st)"
  shows "(\<exists>assistantMsg.
            handleSend J net st =
              (refreshAgentData J net AGENT_IDS (after_exchange st assistantMsg))
                \<lparr>loading := False,
                 trace := trace (refreshAgentData J net AGENT_IDS (after_exchange st assistantMsg))
                            @ [Setter ''setLoading'']\<rparr>)
       \<and> filter is_issued (trace (handleSend J net st)) =
           filter is_issued (trace st) @ [Issued (chat_endpoint st)]
           @ concat (map (\<lambda>a. [Issued (circuit_endpoint a), Issued (cost_endpoint a)]) AGENT_IDS)"
proof -
  have "\<exists>assistantMsg. send_attempt J net (trim (input st)) (sending st) =
          (None, refreshAgentData J net AGENT_IDS (after_exchange st assistantMsg))"
  proof (cases rule: chat_call_cases [of J net st])
    case (ok r d)
    with assms(2) have "d \<noteq> Undefined" and "d \<noteq> Null"
      using chat_call_status(1) [OF ok] by (auto simp: has_payload_def)
    with ok show ?thesis
      using send_attempt_ok by blast
  next
    case (failed r m)
    then show ?thesis
      using send_attempt_failed by blast
  qed
  then obtain assistantMsg where
    sa: "send_attempt J net (trim (input st)) (sending st) =
          (None, refreshAgentData J net AGENT_IDS (after_exchange st assistantMsg))"
    by blast
  have eq: "handleSend J net st =
      (refreshAgentData J net AGENT_IDS (after_exchange st assistantMsg))
        \<lparr>loading := False,
         trace := trace (refreshAgentData J net AGENT_IDS (after_exchange st assistantMsg))
                    @ [Setter ''setLoading'']\<rparr>"
    using assms(1) by (simp add: handleSend_unfold sa Let_def)
  have "filter is_issued (trace (handleSend J net st)) =
      filter is_issued (trace st) @ [Issued (chat_endpoint st)]
      @ concat (map (\<lambda>a. [Issued (circuit_endpoint a), Issued (cost_endpoint a)]) AGENT_IDS)"
    by (simp add: eq issued_refresh after_exchange_def)
  with eq show ?thesis by blast
qed

text \<open>An instance: a query that is answered.\<close>

theorem send_refreshes_once_after_entry_witness:
  "filter is_issued (trace (handleSend int_engine answering_net typed_state)) =
     [Issued ''/api/query'',
      Issued ''/api/agents/coordinator/circuit'', Issued ''/api/agents/coordinator/cost'',
      Issued ''/api/agents/researcher/circuit'', Issued ''/api/agents/researcher/cost'',
      Issued ''/api/agents/coder/circuit'', Issued ''/api/agents/coder/cost'']"
proof -
  have "trim (input typed_state) \<noteq> []"
    by (simp add: typed_state_def trim_hello)
  moreover have "succeeded (chat_call int_engine answering_net typed_state)
      \<longrightarrow> has_payload (chat_call int_engine answering_net typed_state)"
    by (simp add: answering_call)
  ultimately show ?thesis
    using send_refreshes_once_after_entry [of typed_state int_engine answering_net]
    by (simp add: chat_endpoint_def typed_state_def blank_state_def AGENT_IDS_def
        circuit_endpoint_def cost_endpoint_def)
qed

text \<open>
  The claim as worded covers every send with text. In simple mode, when the chat call
  succeeds with the body \<^verbatim>\<open>null\<close>, building the entry throws, the \<^verbatim>\<open>catch\<close> block appends
  the critical entry, and the refresh, the last statement of the \<^verbatim>\<open>try\<close> block, is
  skipped: the chat call is the only call issued.
\<close>

theorem null_reply_skips_refresh_counterexample:
  "trim (input chat_state) = ''hi''
   \<and> succeeded (chat_call int_engine null_answer_net chat_state)
   \<and> filter is_issued (trace (handleSend int_engine null_answer_net chat_state)) = [Issued ''/api/chat'']"
proof -
  have t: "trim (input chat_state) = ''hi''"
    by (simp add: chat_state_def trim_hi)
  have s: "succeeded (chat_call int_engine null_answer_net chat_state)"
    by (simp add: null_answer_chat succeeded_def success_envelope_props)
  have "send_attempt int_engine null_answer_net (trim (input chat_state)) (sending chat_state) =
      (Some null_read, (sending chat_state)\<lparr>trace := trace (sending chat_state)
          @ [Issued (chat_endpoint chat_state), Resumed [chat_endpoint chat_state]]\<rparr>)"
    by (rule send_attempt_null [OF null_answer_chat, where d = Null]) simp_all
  then have "filter is_issued (trace (handleSend int_engine null_answer_net chat_state)) = [Issued ''/api/chat'']"
    using t by (simp add: handleSend_unfold Let_def append_message_def sending_def
        chat_endpoint_def chat_state_def blank_state_def)
  with t s show ?thesis by simp
qed

text \<open>
  C8, amended. Take a send whose trimmed text is not empty and whose call succeeds with
  a payload (neither \<^verbatim>\<open>null\<close> nor \<^verbatim>\<open>undefined\<close>). It appends the user entry and exactly one
  assistant entry, whose shape the mode alone decides: in simple mode the payload's
  response, cost, model and agent identifier; in any other mode its final answer, total
  cost, agents used and routing decision. Neither shape has a key of the other.
\<close>

theorem successful_send_appends_mode_entry:
  assumes "trim (input st) \<noteq> []"
      and "succeeded (chat_call J net st)" and "has_payload (chat_call J net st)"
  shows "messages (handleSend J net st) =
           messages st @ [user_entry (trim (input st)),
                          (if chatMode st = ''simple''
                           then simple_shape (payload (chat_call J net st))
                           else multi_agent_shape (payload (chat_call J net st)))]
       \<and> own_keys (last (messages (handleSend J net st))) =
           (if chatMode st = ''simple''
            then [''role'', ''content'', ''cost'', ''model_used'', ''agent_id'']
            else [''role'', ''content'', ''cost'', ''agents_used'', ''routing_decision''])"
proof (cases rule: chat_call_cases [of J net st])
  case (ok r d)
  then have p: "payload (chat_call J net st) = d"
    using chat_call_status(1) by blast
  with assms(3) have "d \<noteq> Undefined" and "d \<noteq> Null"
    by (auto simp: has_payload_def)
  with ok have "send_attempt J net (trim (input st)) (sending st) =
      (None, refreshAgentData J net AGENT_IDS
         (after_exchange st (if chatMode st = ''simple'' then simple_shape d
                             else multi_agent_shape d)))"
    by (rule send_attempt_ok)
  with assms(1) show ?thesis
    by (simp add: handleSend_unfold Let_def refresh_keeps_messages after_exchange_def p
        simple_shape_def multi_agent_shape_def)
next
  case (failed r m)
  with assms(2) show ?thesis
    using chat_call_status(2) by blast
qed

text \<open>An instance: the answered query, in multi-agent mode.\<close>

theorem successful_send_appends_mode_entry_witness:
  "messages (handleSend int_engine answering_net typed_state) =
     [Obj [(''role'', Str ''user''), (''content'', Str ''hello'')],
      Obj [(''role'', Str ''assistant''), (''content'', Str ''42''), (''cost'', Num 1),
           (''agents_used'', Arr [Str ''coder'']), (''routing_decision'', Str ''code task'')]]"
proof -
  have t: "trim (input typed_state) = ''hello''" "chatMode typed_state = ''multi-agent''"
      "messages typed_state = []"
    by (simp_all add: typed_state_def blank_state_def trim_hello)
  then have "trim (input typed_state) \<noteq> []"
    by simp
  then show ?thesis
    using successful_send_appends_mode_entry [OF _ answering_call(1) answering_call(2)]
    by (simp add: t answering_call(3) multi_agent_shape_def field_def user_entry_def)
qed

text \<open>
  The claim as worded fails when the query succeeds with the body \<^verbatim>\<open>null\<close>: the one
  assistant entry appended is the critical entry, which carries no cost and no list of
  agents.
\<close>

theorem null_reply_entry_counterexample:
  "succeeded (chat_call int_engine null_answer_net typed_state)
   \<and> messages (handleSend int_engine null_answer_net typed_state) =
       [Obj [(''role'', Str ''user''), (''content'', Str ''hello'')],
        Obj [(''role'', Str ''assistant''),
             (''content'', Str ''Critical Error: Client failed to process request.'')]]"
proof -
  have t: "trim (input typed_state) = ''hello''"
    by (simp add: typed_state_def trim_hello)
  have s: "succeeded (chat_call int_engine null_answer_net typed_state)"
    by (simp add: null_answer_query succeeded_def success_envelope_props)
  have "send_attempt int_engine null_answer_net (trim (input typed_state)) (sending typed_state) =
      (Some null_read, (sending typed_state)\<lparr>trace := trace (sending typed_state)
          @ [Issued (chat_endpoint typed_state), Resumed [chat_endpoint typed_state]]\<rparr>)"
    by (rule send_attempt_null [OF null_answer_query, where d = Null]) simp_all
  then have "messages (handleSend int_engine null_answer_net typed_state) =
       [user_entry ''hello'', critical_entry]"
    using t by (simp add: handleSend_unfold Let_def append_message_def sending_def
        typed_state_def blank_state_def)
  with s show ?thesis by (simp add: user_entry_def critical_entry_def)
qed

text \<open>
  C9. A send whose text is empty or made of white space only changes nothing: the state
  it returns is the state it was given, so no entry is appended and, the trace being
  part of the state, no call is issued.
\<close>

theorem blank_send_is_noop:
  assumes "whitespace_only (input st)"
  shows "handleSend J net st = st"
  using assms by (simp add: handleSend_def trim_whitespace_only)

text \<open>An instance: the text is a space and a tab.\<close>

theorem blank_send_is_noop_witness:
  "handleSend int_engine scenario_net blank_input_state = blank_input_state"
proof -
  have "set [[CHR 0x20], [CHR 0x09]] \<subseteq> set js_whitespace
      \<and> input blank_input_state = concat [[CHR 0x20], [CHR 0x09]]"
    by (simp add: js_whitespace_def blank_input_state_def)
  then have "whitespace_only (input blank_input_state)"
    unfolding whitespace_only_def by (rule exI)
  then show ?thesis
    by (rule blank_send_is_noop)
qed

section \<open>Properties of the polling loop of the 3D view\<close>

lemma promise_all_resolved: "promise_all (map (\<lambda>a. Inr (f a)) xs) = Inr (map f xs)"
  by (induction xs) (simp_all add: bind_exn_def)

lemma mesh_node_eq:
  "mesh_node J net agentId =
     Inr (Obj [(''id'', Str agentId), (''status'', Undefined), (''failureCount'', Num (num_zero J))])"
  by (cases rule: apiFetch_cases [of J net "circuit_endpoint agentId" get_options])
    (simp_all add: mesh_node_def getAgentStatus_def bind_exn_def js_or_def
      success_envelope_props failure_envelope_props)

text \<open>
  C10. The poll reads \<^verbatim>\<open>status\<close> and \<^verbatim>\<open>failure_count\<close> from the envelope itself, which has
  neither property. Whatever the network replies, every agent is shown with an
  undefined status and the failure count 0.
\<close>

theorem mesh_reads_envelope_top_level:
  "fetchStates J net shown =
     map (\<lambda>agentId. Obj [(''id'', Str agentId), (''status'', Undefined),
                          (''failureCount'', Num (num_zero J))]) AGENT_IDS"
proof -
  have "mesh_node J net =
      (\<lambda>agentId. Inr (Obj [(''id'', Str agentId), (''status'', Undefined),
                             (''failureCount'', Num (num_zero J))]))"
    by (rule ext) (rule mesh_node_eq)
  then show ?thesis
    by (simp add: fetchStates_def promise_all_resolved)
qed

text \<open>
  An instance: in the scenario the circuit of \<^verbatim>\<open>coordinator\<close> is reported closed with two
  failures, and the view gets neither.
\<close>

theorem mesh_reads_envelope_top_level_witness:
  "payload (getAgentStatus int_engine scenario_net ''coordinator'') =
     Obj [(''agent_id'', Str ''a''), (''status'', Str ''closed''), (''failure_count'', Num 2),
          (''budget_limit_usd'', Str ''10.00'')]
   \<and> fetchStates int_engine scenario_net [] =
     [Obj [(''id'', Str ''coordinator''), (''status'', Undefined), (''failureCount'', Num 0)],
      Obj [(''id'', Str ''researcher''), (''status'', Undefined), (''failureCount'', Num 0)],
      Obj [(''id'', Str ''coder''), (''status'', Undefined), (''failureCount'', Num 0)]]"
  using mesh_reads_envelope_top_level [of int_engine scenario_net "[]"]
  by (simp add: AGENT_IDS_def int_engine_def payload_def field_def gateway_eval scenario_net_def)

end
